theory Spec2Isabelle
  imports Main "HOL-Library.Word" "HOL-Library.Sublist"
begin

unbundle bit_operations_syntax

section \<open>Machine types\<close>

text \<open>
  The loader works on fixed-width unsigned integers. \<open>ea_t\<close> is the address type of
  the disassembly host; it is taken in its 64-bit form. Values the loader keeps in
  \<open>uint32\<close> variables wrap at 32 bits before they are widened to an address.
\<close>

type_synonym uchar = "8 word"
type_synonym uint16 = "16 word"
type_synonym uint32 = "32 word"
type_synonym uint64 = "64 word"
type_synonym ea_t = "64 word"

section \<open>ELF constants\<close>

text \<open>
  The numeric values below are those of the ELF and PowerPC64 ABI headers and of the
  console's own program-header types; the source refers to them by name only.
\<close>

definition R_PPC64_NONE :: uint32 where "R_PPC64_NONE = 0"
definition R_PPC64_ADDR32 :: uint32 where "R_PPC64_ADDR32 = 1"
definition R_PPC64_ADDR16_LO :: uint32 where "R_PPC64_ADDR16_LO = 4"
definition R_PPC64_ADDR16_HA :: uint32 where "R_PPC64_ADDR16_HA = 6"
definition R_PPC64_REL24 :: uint32 where "R_PPC64_REL24 = 10"
definition R_PPC64_TOC16 :: uint32 where "R_PPC64_TOC16 = 47"
definition R_PPC64_TOC16_DS :: uint32 where "R_PPC64_TOC16_DS = 63"
definition R_PPC64_TLSGD :: uint32 where "R_PPC64_TLSGD = 107"

definition SHT_RELA :: uint32 where "SHT_RELA = 4"
definition SHF_ALLOC :: uint64 where "SHF_ALLOC = 2"
definition SHN_ABS :: uint16 where "SHN_ABS = 0xFFF1"

definition PT_SCE_PPURELA :: uint32 where "PT_SCE_PPURELA = 0x700000A4"
definition PT_SCE_SEGSYM :: uint32 where "PT_SCE_SEGSYM = 0x700000A8"

definition ELF64_R_SYM :: "uint64 \<Rightarrow> uint64" where
  "ELF64_R_SYM i = drop_bit 32 i"

definition ELF64_R_TYPE :: "uint64 \<Rightarrow> uint64" where
  "ELF64_R_TYPE i = i AND 0xFFFFFFFF"

section \<open>The ELF image as the reader hands it over\<close>

record Elf64_Rela =
  r_offset :: uint64
  r_info :: uint64
  r_addend :: uint64

record Elf64_Sym =
  st_name :: uint32
  st_info :: uchar
  st_other :: uchar
  st_shndx :: uint16
  st_value :: uint64
  st_size :: uint64

text \<open>
  A section header together with what the reader attaches to it: the name found through
  the section string table and, for a relocation section, its data seen as an array of
  \<open>Elf64_Rela\<close> records (in file byte order).
\<close>

record Elf64_Shdr =
  sh_name :: uint32
  sh_type :: uint32
  sh_flags :: uint64
  sh_addr :: uint64
  sh_offset :: uint64
  sh_size :: uint64
  sh_link :: uint32
  sh_info :: uint32
  sh_addralign :: uint64
  sh_entsize :: uint64
  sec_name :: string
  sec_rela :: "Elf64_Rela list"

record Elf64_Phdr =
  p_type :: uint32
  p_flags :: uint32
  p_offset :: uint64
  p_vaddr :: uint64
  p_paddr :: uint64
  p_filesz :: uint64
  p_memsz :: uint64
  p_align :: uint64
  seg_rela :: "Elf64_Rela list"

record elf_reader =
  e_type :: uint16
  getSegments :: "Elf64_Phdr list"
  getSections :: "Elf64_Shdr list"
  getSymbols :: "Elf64_Sym list"

definition getNumSymbols :: "elf_reader \<Rightarrow> nat" where
  "getNumSymbols elf = length (getSymbols elf)"

definition getNumSections :: "elf_reader \<Rightarrow> nat" where
  "getNumSections elf = length (getSections elf)"

text \<open>
  Modelled from the spec: \<open>getSectionByName\<close> belongs to the ELF reader, which is not
  part of the loader's source. It looks up a section by its literal name and yields the
  first one, or nothing.
\<close>

definition getSectionByName :: "elf_reader \<Rightarrow> string \<Rightarrow> Elf64_Shdr option" where
  "getSectionByName elf n = find (\<lambda>s. sec_name s = n) (getSections elf)"

text \<open>
  Modelled from the spec: \<open>swap\<close> is the reader's byte-order reversal of a 64-bit field
  (the file is big-endian).
\<close>

definition swap :: "uint64 \<Rightarrow> uint64" where
  "swap w =
     push_bit 56 (w AND 0xFF) OR
     push_bit 40 (w AND 0xFF00) OR
     push_bit 24 (w AND 0xFF0000) OR
     push_bit 8 (w AND 0xFF000000) OR
     (drop_bit 8 w AND 0xFF000000) OR
     (drop_bit 24 w AND 0xFF0000) OR
     (drop_bit 40 w AND 0xFF00) OR
     (drop_bit 56 w AND 0xFF)"

definition swap_rela :: "Elf64_Rela \<Rightarrow> Elf64_Rela" where
  "swap_rela r =
     \<lparr> r_offset = swap (r_offset r), r_info = swap (r_info r), r_addend = swap (r_addend r) \<rparr>"

section \<open>The loader's state and the host database\<close>

text \<open>
  Every request to the host that leaves a trace (a message, a name, a comment, a typed
  item) is recorded, in order, in \<open>db_calls\<close>. A request is recorded as it is made;
  what the host then does with it (a name already in use is given a suffix, for
  instance) is outside the loader.
\<close>

datatype host_call =
    Msg string
  | MsgInvalidRelocType uint32
  | MsgUnsupportedReloc uint32
  | MsgUnknownExport ea_t
  | MsgUnknownImport ea_t
  | ForceName ea_t string
  | SetCmt ea_t string
  | CreateDword ea_t
  | CreateStruct ea_t nat string
  | AutoMakeProc ea_t
  | ImportSymbol string ea_t string
  | AddEntry nat ea_t string bool

text \<open>
  What stops a run: an index past the end of a table (the source indexes unchecked, which
  is undefined behaviour there), and a read of the global pointer before any assignment to
  it (the constructor leaves \<open>m_gpValue\<close> unset, so it is \<open>None\<close> until \<open>apply\<close> assigns
  it). \<open>m_gpValue\<close> is taken as a 32-bit value: every assignment but the \<open>.toc\<close> one stores
  a \<open>get_dword\<close> result, and the relocation routine uses its low 32 bits only.
\<close>

datatype fault = OutOfBounds | UnresolvedGp

text \<open>
  The name database, parsed: library groups in document order, each with its entries
  (numeric id as \<open>strtoul\<close> reads it, symbol name) in document order.
\<close>

type_synonym nid_group = "string \<times> (nat \<times> string) list"

text \<open>
  The loader object (the \<open>m_\<close> fields) and the host database it works on: current
  bytes, original bytes, the C string the host reads at an address (\<open>db_strlit\<close>, the
  result of \<open>get_strlit_contents\<close>), and the recorded requests.
\<close>

record cell_loader =
  m_elf :: elf_reader
  m_database :: "nid_group list"
  m_relocAddr :: uint64
  m_gpValue :: "uint32 option"
  m_hasSegSym :: bool
  db_bytes :: "ea_t \<Rightarrow> uchar"
  db_orig :: "ea_t \<Rightarrow> uchar"
  db_strlit :: "ea_t \<Rightarrow> string"
  db_calls :: "host_call list"

text \<open>
  Modelled from the spec: \<open>isLoadingPrx\<close> is declared in the loader's header, which is
  not part of the source; a relocatable module is the ELF type \<open>ET_SCE_PPURELEXEC\<close>.
\<close>

definition ET_SCE_PPURELEXEC :: uint16 where "ET_SCE_PPURELEXEC = 0xFFA4"

definition isLoadingPrx :: "elf_reader \<Rightarrow> bool" where
  "isLoadingPrx elf = (e_type elf = ET_SCE_PPURELEXEC)"

text \<open>
  The constructor: the relocation base is kept for a module only, the marker flag starts
  false, and \<open>m_gpValue\<close> is not assigned. The host database is given by its bytes (the
  loaded image, current and original alike) and its string reader.
\<close>

definition new_cell_loader ::
  "elf_reader \<Rightarrow> uint64 \<Rightarrow> nid_group list \<Rightarrow> (ea_t \<Rightarrow> uchar) \<Rightarrow> (ea_t \<Rightarrow> string) \<Rightarrow> cell_loader" where
  "new_cell_loader elf relocAddr database bytes strlit =
     \<lparr> m_elf = elf, m_database = database,
       m_relocAddr = (if isLoadingPrx elf then relocAddr else 0),
       m_gpValue = None, m_hasSegSym = False,
       db_bytes = bytes, db_orig = bytes, db_strlit = strlit, db_calls = [] \<rparr>"

definition msg :: "host_call \<Rightarrow> cell_loader \<Rightarrow> cell_loader" where
  "msg c st = st\<lparr>db_calls := db_calls st @ [c]\<rparr>"

subsection \<open>Reading and patching the database\<close>

text \<open>
  Modelled from the spec: the host reads and writes 1, 2 and 4 byte integers at an
  address, big-endian, in a current and an original (pre-patch) variant. A patch changes
  the current bytes only.
\<close>

definition be16 :: "uchar \<Rightarrow> uchar \<Rightarrow> uint16" where
  "be16 b0 b1 = push_bit 8 (ucast b0) OR ucast b1"

definition be32 :: "uchar \<Rightarrow> uchar \<Rightarrow> uchar \<Rightarrow> uchar \<Rightarrow> uint32" where
  "be32 b0 b1 b2 b3 =
     push_bit 24 (ucast b0) OR push_bit 16 (ucast b1) OR push_bit 8 (ucast b2) OR ucast b3"

definition get_byte :: "cell_loader \<Rightarrow> ea_t \<Rightarrow> uchar" where
  "get_byte st ea = db_bytes st ea"

definition get_word :: "cell_loader \<Rightarrow> ea_t \<Rightarrow> uint16" where
  "get_word st ea = be16 (db_bytes st ea) (db_bytes st (ea + 1))"

definition get_dword :: "cell_loader \<Rightarrow> ea_t \<Rightarrow> uint32" where
  "get_dword st ea =
     be32 (db_bytes st ea) (db_bytes st (ea + 1)) (db_bytes st (ea + 2)) (db_bytes st (ea + 3))"

definition get_original_dword :: "cell_loader \<Rightarrow> ea_t \<Rightarrow> uint32" where
  "get_original_dword st ea =
     be32 (db_orig st ea) (db_orig st (ea + 1)) (db_orig st (ea + 2)) (db_orig st (ea + 3))"

definition patch_word :: "ea_t \<Rightarrow> uint16 \<Rightarrow> cell_loader \<Rightarrow> cell_loader" where
  "patch_word ea v st =
     st\<lparr>db_bytes := (db_bytes st)(ea := ucast (drop_bit 8 v), ea + 1 := ucast v)\<rparr>"

definition patch_dword :: "ea_t \<Rightarrow> uint32 \<Rightarrow> cell_loader \<Rightarrow> cell_loader" where
  "patch_dword ea v st =
     st\<lparr>db_bytes := (db_bytes st)
       (ea := ucast (drop_bit 24 v), ea + 1 := ucast (drop_bit 16 v),
        ea + 2 := ucast (drop_bit 8 v), ea + 3 := ucast v)\<rparr>"

section \<open>The relocation engine\<close>

subsection \<open>applyRelocation\<close>

text \<open>
  \<open>addr\<close> and \<open>saddr\<close> are \<open>uint32\<close>: adding the 64-bit relocation base keeps the low 32
  bits. The three cases that use \<open>m_gpValue\<close> read it; the others do not.
\<close>

definition applyRelocation ::
  "uint32 \<Rightarrow> uint32 \<Rightarrow> uint32 \<Rightarrow> cell_loader \<Rightarrow> fault + cell_loader" where
  "applyRelocation type addr0 saddr0 st =
     (let addr = addr0 + ucast (m_relocAddr st);
          saddr = saddr0 + ucast (m_relocAddr st)
      in if type = R_PPC64_ADDR32 then
           Inr (patch_dword (ucast addr) saddr st)
         else if type = R_PPC64_ADDR16_LO then
           Inr (patch_word (ucast addr) (ucast (saddr AND 0xFFFF)) st)
         else if type = R_PPC64_ADDR16_HA then
           Inr (patch_word (ucast addr) (ucast (drop_bit 16 (saddr + 0x8000) AND 0xFFFF)) st)
         else if type = R_PPC64_REL24 then
           (let value = get_original_dword st (ucast addr);
                value' = (value AND NOT 0x03FFFFFC) OR ((saddr - addr) AND 0x3FFFFFC)
            in Inr (patch_dword (ucast addr) value' st))
         else if type = R_PPC64_TOC16 then
           (case m_gpValue st of
              None \<Rightarrow> Inl UnresolvedGp
            | Some gp \<Rightarrow> Inr (patch_word (ucast addr) (ucast (saddr - gp)) st))
         else if type = R_PPC64_TOC16_DS then
           (case m_gpValue st of
              None \<Rightarrow> Inl UnresolvedGp
            | Some gp \<Rightarrow>
                (let value = (ucast (get_word st (ucast addr)) :: uint32);
                     value' = (value AND NOT 0xFFFC) OR ((saddr - gp) AND 0xFFFC)
                 in Inr (patch_word (ucast addr) (ucast value') st)))
         else if type = R_PPC64_TLSGD then
           (case m_gpValue st of
              None \<Rightarrow> Inl UnresolvedGp
            | Some gp \<Rightarrow> Inr (patch_dword (ucast addr) gp st))
         else
           Inr (msg (MsgUnsupportedReloc type) st))"

subsection \<open>Section-based entries\<close>

text \<open>
  One pass of the inner loop of \<open>applySectionRelocations\<close>, on an entry whose three
  fields have been byte-swapped. \<open>section\<close> is the relocation section being walked. The
  symbol table and the section table are indexed unchecked in the source, so an index
  past the end is the fault \<open>OutOfBounds\<close>. Messages are recorded without their final
  newline.
\<close>

definition applySectionRela ::
  "Elf64_Shdr \<Rightarrow> Elf64_Rela \<Rightarrow> cell_loader \<Rightarrow> fault + cell_loader" where
  "applySectionRela section rela st =
     (let sections = getSections (m_elf st);
          symbols = getSymbols (m_elf st);
          type = (ucast (ELF64_R_TYPE (r_info rela)) :: uint32);
          sym = (ucast (ELF64_R_SYM (r_info rela)) :: uint32)
      in if type = R_PPC64_NONE then Inr (msg (Msg ''Skipping relocation..'') st)
         else if R_PPC64_TLSGD < type then Inr (msg (MsgInvalidRelocType type) st)
         else if getNumSymbols (m_elf st) < unat sym then
           Inr (msg (Msg ''Invalid symbol index!'') st)
         else if length symbols \<le> unat sym then Inl OutOfBounds
         else
           (let s = symbols ! unat sym
            in if getNumSections (m_elf st) < unat (st_shndx s) \<and> st_shndx s \<noteq> SHN_ABS then
                 Inr (msg (Msg ''Invalid symbol section index!'') st)
               else if st_shndx s \<noteq> SHN_ABS \<and> length sections \<le> unat (st_shndx s) then
                 Inl OutOfBounds
               else if length sections \<le> unat (sh_info section) then Inl OutOfBounds
               else
                 (let symaddr = (if st_shndx s = SHN_ABS then ucast (st_value s)
                                 else ucast (sh_addr (sections ! unat (st_shndx s))) :: uint32);
                      addr = (ucast (sh_addr (sections ! unat (sh_info section)) + r_offset rela)
                                :: uint32);
                      saddr = (ucast (ucast symaddr + st_value s + r_addend rela) :: uint32)
                  in applyRelocation type addr saddr st)))"

text \<open>
  The loop \<open>for (i = 0; i < nrela; ++i)\<close> over the array \<open>relocations\<close>: the indices to
  visit are given as a list; entry \<open>i\<close> is swapped, then handed to \<open>f\<close>. A fault ends
  the walk.
\<close>

primrec relaLoop ::
  "(Elf64_Rela \<Rightarrow> cell_loader \<Rightarrow> fault + cell_loader) \<Rightarrow> Elf64_Rela list \<Rightarrow> nat list \<Rightarrow>
   cell_loader \<Rightarrow> fault + cell_loader" where
  "relaLoop f relocations [] st = Inr st"
| "relaLoop f relocations (i # is) st =
     (if length relocations \<le> i then Inl OutOfBounds
      else case f (swap_rela (relocations ! i)) st of
             Inl e \<Rightarrow> Inl e
           | Inr st' \<Rightarrow> relaLoop f relocations is st')"

definition sizeof_Elf64_Rela :: nat where
  "sizeof_Elf64_Rela = 24"

primrec sectionLoop :: "Elf64_Shdr list \<Rightarrow> cell_loader \<Rightarrow> fault + cell_loader" where
  "sectionLoop [] st = Inr st"
| "sectionLoop (section # rest) st =
     (if sh_type section = SHT_RELA then
        (if length (getSections (m_elf st)) \<le> unat (sh_info section) then Inl OutOfBounds
         else if sh_flags (getSections (m_elf st) ! unat (sh_info section)) AND SHF_ALLOC = 0 then
           sectionLoop rest st
         else
           (case relaLoop (applySectionRela section) (sec_rela section)
                   [0 ..< unat (sh_size section) div sizeof_Elf64_Rela] st of
              Inl e \<Rightarrow> Inl e
            | Inr st' \<Rightarrow> sectionLoop rest st'))
      else sectionLoop rest st)"

definition applySectionRelocations :: "cell_loader \<Rightarrow> fault + cell_loader" where
  "applySectionRelocations st =
     sectionLoop (getSections (m_elf st)) (msg (Msg ''Applying section based relocations..'') st)"

subsection \<open>Segment-based entries\<close>

text \<open>
  One pass of the inner loop of \<open>applySegmentRelocations\<close>. The two segment indices are
  taken out of the symbol field and used to index the segment table as they are; only
  the value 0xFF is treated apart.
\<close>

definition applySegmentRela :: "Elf64_Rela \<Rightarrow> cell_loader \<Rightarrow> fault + cell_loader" where
  "applySegmentRela rela st =
     (let segments = getSegments (m_elf st);
          type = ELF64_R_TYPE (r_info rela)
      in if type = ucast R_PPC64_NONE then Inr st
         else
           (let sym = ELF64_R_SYM (r_info rela);
                patchseg = sym AND 0x000000FF;
                symseg = drop_bit 8 (sym AND 0x7FFFFF00)
            in if patchseg \<noteq> 0xFF \<and> length segments \<le> unat patchseg then Inl OutOfBounds
               else if symseg \<noteq> 0xFF \<and> length segments \<le> unat symseg then Inl OutOfBounds
               else
                 (let addr = (if patchseg = 0xFF then 0
                              else ucast (p_vaddr (segments ! unat patchseg) + r_offset rela)
                                :: uint32);
                      saddr = (if symseg = 0xFF then 0
                               else ucast (p_vaddr (segments ! unat symseg) + r_addend rela)
                                 :: uint32)
                  in applyRelocation (ucast type) addr saddr st)))"

text \<open>Only the first relocation-table segment is walked (the loop breaks after it).\<close>

definition applySegmentRelocations :: "cell_loader \<Rightarrow> fault + cell_loader" where
  "applySegmentRelocations st =
     (let st1 = msg (Msg ''Applying segment based relocations..'') st
      in case find (\<lambda>segment. p_type segment = PT_SCE_PPURELA) (getSegments (m_elf st)) of
           None \<Rightarrow> Inr st1
         | Some segment \<Rightarrow>
             relaLoop applySegmentRela (seg_rela segment)
               [0 ..< unat (p_filesz segment) div sizeof_Elf64_Rela] st1)"

definition applyRelocations :: "cell_loader \<Rightarrow> fault + cell_loader" where
  "applyRelocations st =
     (if m_hasSegSym st then applySectionRelocations st else applySegmentRelocations st)"

section \<open>The module branch of apply\<close>

text \<open>
  \<open>gp_value\<close> follows the 32-byte common part of the module-info structure (attribute,
  version, a 27-byte name, a terminator), as \<open>declareStructures\<close> lays it out.
\<close>

definition offsetof_gp_value :: uint64 where
  "offsetof_gp_value = 0x20"

text \<open>The scan for the segment-symbol marker (the flag is false after construction).\<close>

definition scanSegSym :: "cell_loader \<Rightarrow> cell_loader" where
  "scanSegSym st =
     (if list_ex (\<lambda>segment. p_type segment = PT_SCE_SEGSYM) (getSegments (m_elf st))
      then st\<lparr>m_hasSegSym := True\<rparr> else st)"

definition lookupToc :: "cell_loader \<Rightarrow> cell_loader" where
  "lookupToc st =
     (if m_hasSegSym st then
        (case getSectionByName (m_elf st) ''.toc'' of
           Some tocSection \<Rightarrow>
             st\<lparr>m_gpValue := Some (ucast (sh_addr tocSection + m_relocAddr st))\<rparr>
         | None \<Rightarrow> st)
      else st)"

definition readModuleGp :: "cell_loader \<Rightarrow> fault + cell_loader" where
  "readModuleGp st =
     (if \<not> m_hasSegSym st then
        (case getSegments (m_elf st) of
           [] \<Rightarrow> Inl OutOfBounds
         | firstSegment # _ \<Rightarrow>
             Inr (st\<lparr>m_gpValue := Some (get_dword st
                    ((p_vaddr firstSegment + m_relocAddr st) +
                     (p_paddr firstSegment - p_offset firstSegment) +
                     offsetof_gp_value))\<rparr>))
      else Inr st)"

text \<open>
  \<open>apply\<close> for a relocatable module, from the marker scan up to the point where
  \<open>applyModuleInfo\<close> is called: marker scan, \<open>.toc\<close> lookup, relocations, then the read of
  \<open>gp_value\<close> that is made only when the marker is absent. The state it starts from is the
  one \<open>applySegments\<close> and \<open>swapSymbols\<close> leave: the image is in the database and the
  symbol fields are in host byte order.
\<close>

definition apply_prx :: "cell_loader \<Rightarrow> fault + cell_loader" where
  "apply_prx st =
     (case applyRelocations (msg (Msg ''Applying Relocations...'') (lookupToc (scanSegSym st))) of
        Inl e \<Rightarrow> Inl e
      | Inr st' \<Rightarrow> readModuleGp st')"

section \<open>The name database\<close>

primrec findEntry :: "(nat \<times> string) list \<Rightarrow> uint32 \<Rightarrow> string option" where
  "findEntry [] nid = None"
| "findEntry (entry # entries) nid =
     (if fst entry = unat nid then Some (snd entry) else findEntry entries nid)"

text \<open>
  Every group whose name equals the library is searched, in order; the first entry with
  the id wins.
\<close>

primrec getNameFromDatabase :: "nid_group list \<Rightarrow> string \<Rightarrow> uint32 \<Rightarrow> string option" where
  "getNameFromDatabase [] library nid = None"
| "getNameFromDatabase (grp # groups) library nid =
     (if library = fst grp then
        (case findEntry (snd grp) nid of
           Some name \<Rightarrow> Some name
         | None \<Rightarrow> getNameFromDatabase groups library nid)
      else getNameFromDatabase groups library nid)"

section \<open>Host requests made by the table walkers\<close>

definition force_name :: "ea_t \<Rightarrow> string \<Rightarrow> cell_loader \<Rightarrow> cell_loader" where
  "force_name ea name st = st\<lparr>db_calls := db_calls st @ [ForceName ea name]\<rparr>"

definition set_cmt :: "ea_t \<Rightarrow> string \<Rightarrow> cell_loader \<Rightarrow> cell_loader" where
  "set_cmt ea cmt st = st\<lparr>db_calls := db_calls st @ [SetCmt ea cmt]\<rparr>"

definition create_dword :: "ea_t \<Rightarrow> cell_loader \<Rightarrow> cell_loader" where
  "create_dword ea st = st\<lparr>db_calls := db_calls st @ [CreateDword ea]\<rparr>"

definition create_struct :: "ea_t \<Rightarrow> nat \<Rightarrow> string \<Rightarrow> cell_loader \<Rightarrow> cell_loader" where
  "create_struct ea sz tid st = st\<lparr>db_calls := db_calls st @ [CreateStruct ea sz tid]\<rparr>"

definition auto_make_proc :: "ea_t \<Rightarrow> cell_loader \<Rightarrow> cell_loader" where
  "auto_make_proc ea st = st\<lparr>db_calls := db_calls st @ [AutoMakeProc ea]\<rparr>"

text \<open>
  The three calls that register an imported symbol with the host (\<open>netnode_check\<close> on the
  library, \<open>netnode_supset\<close> of the name at the address, \<open>import_module\<close>) are one record.
\<close>

definition import_symbol :: "string \<Rightarrow> ea_t \<Rightarrow> string \<Rightarrow> cell_loader \<Rightarrow> cell_loader" where
  "import_symbol lib ea name st = st\<lparr>db_calls := db_calls st @ [ImportSymbol lib ea name]\<rparr>"

text \<open>
  \<open>qsnprintf\<close> into a buffer of \<open>n\<close> bytes keeps at most \<open>n - 1\<close> characters of the
  formatted text. \<open>MAXNAMELEN\<close> is the host's name-buffer size.
\<close>

definition MAXNAMELEN :: nat where
  "MAXNAMELEN = 512"

definition qsnprintf :: "nat \<Rightarrow> string \<Rightarrow> string" where
  "qsnprintf n s = take (n - 1) s"

section \<open>Export and import tables\<close>

text \<open>
  Sizes and field offsets of the two table-entry structures, as \<open>declareStructures\<close>
  lays them out: a 16-byte common part (size byte, reserved byte, version, attribute,
  \<open>nfunc\<close>, \<open>nvar\<close>, \<open>ntlsvar\<close>, four more bytes) followed by 32-bit pointers.
\<close>

definition sizeof_scelibent_ppu32 :: nat where "sizeof_scelibent_ppu32 = 28"
definition sizeof_scelibstub_ppu32 :: nat where "sizeof_scelibstub_ppu32 = 44"

definition off_nfunc :: ea_t where "off_nfunc = 6"
definition off_nvar :: ea_t where "off_nvar = 8"
definition off_ntlsvar :: ea_t where "off_ntlsvar = 10"
definition off_libname :: ea_t where "off_libname = 16"
definition off_nidtable :: ea_t where "off_nidtable = 20"
definition off_addtable :: ea_t where "off_addtable = 24"
definition off_func_nidtable :: ea_t where "off_func_nidtable = 20"
definition off_func_table :: ea_t where "off_func_table = 24"
definition off_var_nidtable :: ea_t where "off_var_nidtable = 28"
definition off_var_table :: ea_t where "off_var_table = 32"
definition off_tls_nidtable :: ea_t where "off_tls_nidtable = 36"
definition off_tls_table :: ea_t where "off_tls_table = 40"

subsection \<open>loadExports\<close>

text \<open>
  One pass of the inner loop of \<open>loadExports\<close>, for slot \<open>i\<close>. The table pointers are
  \<open>uint32\<close> there, so the slot addresses wrap at 32 bits.
\<close>

definition exportSlot ::
  "uint32 \<Rightarrow> string \<Rightarrow> uint16 \<Rightarrow> uint32 \<Rightarrow> uint32 \<Rightarrow> nat \<Rightarrow> cell_loader \<Rightarrow> cell_loader" where
  "exportSlot libNamePtr libName nfunc nidTable addTable i st =
     (let nidOffset = (ucast (nidTable + of_nat i * 4) :: ea_t);
          addOffset = (ucast (addTable + of_nat i * 4) :: ea_t);
          nid = get_dword st nidOffset;
          add = get_dword st addOffset;
          st1 =
            (if libNamePtr \<noteq> 0 then
               (let addToc = get_dword st (ucast add);
                    st2 =
                      (case getNameFromDatabase (m_database st) libName nid of
                         Some resolvedNid \<Rightarrow>
                           (let st3 = force_name (ucast add) resolvedNid
                                        (set_cmt nidOffset resolvedNid st)
                            in if i < unat nfunc then
                                 force_name (ucast addToc)
                                   (qsnprintf MAXNAMELEN (''.'' @ resolvedNid)) st3
                               else st3)
                       | None \<Rightarrow> st)
                in if i < unat nfunc then auto_make_proc (ucast addToc) st2 else st2)
             else st)
      in create_dword addOffset (create_dword nidOffset st1))"

text \<open>The body of the outer loop of \<open>loadExports\<close> for the entry at \<open>ea\<close>.\<close>

definition exportEntry :: "ea_t \<Rightarrow> cell_loader \<Rightarrow> cell_loader" where
  "exportEntry ea st =
     (let structsize = get_byte st ea;
          nfunc = get_word st (ea + off_nfunc);
          nvar = get_word st (ea + off_nvar);
          ntlsvar = get_word st (ea + off_ntlsvar);
          count = unat nfunc + unat nvar + unat ntlsvar
      in if unat structsize = sizeof_scelibent_ppu32 then
           (let st1 = create_struct ea sizeof_scelibent_ppu32 ''_scelibent_ppu32'' st;
                libNamePtr = get_dword st1 (ea + off_libname);
                nidTable = get_dword st1 (ea + off_nidtable);
                addTable = get_dword st1 (ea + off_addtable);
                libName = (if libNamePtr = 0 then [] else db_strlit st1 (ucast libNamePtr));
                st2 =
                  (if libNamePtr = 0 then
                     force_name (ucast addTable) ''_NONAMEentry_table''
                       (force_name (ucast nidTable) ''_NONAMEnid_table'' st1)
                   else
                     force_name (ucast addTable)
                       (qsnprintf MAXNAMELEN (''__'' @ libName @ ''_Functions_table''))
                       (force_name (ucast nidTable)
                          (qsnprintf MAXNAMELEN (''__'' @ libName @ ''_Functions_NID_table''))
                          (force_name (ucast libNamePtr)
                             (qsnprintf MAXNAMELEN (''_'' @ libName @ ''_str'')) st1)))
            in if nidTable \<noteq> 0 \<and> addTable \<noteq> 0 then
                 fold (exportSlot libNamePtr libName nfunc nidTable addTable) [0 ..< count] st2
               else st2)
         else msg (MsgUnknownExport ea) st)"

text \<open>
  The outer loop \<open>for (ea = entTop; ea < entEnd; ea += structsize)\<close>. The stride is the
  byte read at \<open>ea\<close>; nothing makes it positive, so the loop is a partial function and
  \<open>None\<close> stands for a walk that does not return.
\<close>

partial_function (option) exportLoop :: "ea_t \<Rightarrow> ea_t \<Rightarrow> cell_loader \<Rightarrow> cell_loader option" where
  "exportLoop ea entEnd st =
     (if ea < entEnd then exportLoop (ea + ucast (get_byte st ea)) entEnd (exportEntry ea st)
      else Some st)"

definition exportMarkers :: "uint32 \<Rightarrow> uint32 \<Rightarrow> cell_loader \<Rightarrow> cell_loader" where
  "exportMarkers entTop entEnd st =
     force_name (ucast entEnd) ''__end_of_section_lib_ent''
       (force_name (ucast (entTop - 4)) ''__begin_of_section_lib_ent''
          (msg (Msg ''Loading exports...'') st))"

definition loadExports :: "uint32 \<Rightarrow> uint32 \<Rightarrow> cell_loader \<Rightarrow> cell_loader option" where
  "loadExports entTop entEnd st =
     exportLoop (ucast entTop) (ucast entEnd) (exportMarkers entTop entEnd st)"

subsection \<open>loadImports\<close>

definition importFuncSlot :: "string \<Rightarrow> ea_t \<Rightarrow> ea_t \<Rightarrow> nat \<Rightarrow> cell_loader \<Rightarrow> cell_loader" where
  "importFuncSlot libName funcNidTable funcTable i st =
     (let nidOffset = funcNidTable + of_nat i * 4;
          funcOffset = funcTable + of_nat i * 4;
          nid = get_dword st nidOffset;
          func = get_dword st funcOffset;
          st1 =
            (case getNameFromDatabase (m_database st) libName nid of
               Some resolvedNid \<Rightarrow>
                 (let symName = qsnprintf MAXNAMELEN (''.'' @ resolvedNid)
                  in import_symbol libName (ucast func) symName
                       (force_name (ucast func) symName
                          (force_name funcOffset
                             (qsnprintf MAXNAMELEN (resolvedNid @ ''.stub_entry''))
                             (set_cmt nidOffset resolvedNid st))))
             | None \<Rightarrow> st)
      in create_dword funcOffset (create_dword nidOffset st1))"

definition importVarSlot :: "string \<Rightarrow> ea_t \<Rightarrow> ea_t \<Rightarrow> nat \<Rightarrow> cell_loader \<Rightarrow> cell_loader" where
  "importVarSlot libName varNidTable varTable i st =
     (let nidOffset = varNidTable + of_nat i * 4;
          varOffset = varTable + of_nat i * 4;
          nid = get_dword st nidOffset;
          st1 =
            (case getNameFromDatabase (m_database st) libName nid of
               Some resolvedNid \<Rightarrow> force_name varOffset resolvedNid (set_cmt nidOffset resolvedNid st)
             | None \<Rightarrow> st)
      in create_dword varOffset (create_dword nidOffset st1))"

definition importTlsSlot :: "string \<Rightarrow> ea_t \<Rightarrow> ea_t \<Rightarrow> nat \<Rightarrow> cell_loader \<Rightarrow> cell_loader" where
  "importTlsSlot libName tlsNidTable tlsTable i st =
     (let nidOffset = tlsNidTable + of_nat i * 4;
          tlsOffset = tlsTable + of_nat i * 4;
          nid = get_dword st nidOffset;
          st1 =
            (case getNameFromDatabase (m_database st) libName nid of
               Some resolvedNid \<Rightarrow> force_name tlsOffset resolvedNid (set_cmt nidOffset resolvedNid st)
             | None \<Rightarrow> st)
      in create_dword tlsOffset (create_dword nidOffset st1))"

text \<open>
  The body of the outer loop of \<open>loadImports\<close> for the entry at \<open>ea\<close>. The bounds of the
  three inner loops are written as the source has them.
\<close>

definition importEntry :: "ea_t \<Rightarrow> cell_loader \<Rightarrow> cell_loader" where
  "importEntry ea st =
     (let structsize = get_byte st ea;
          nFunc = get_word st (ea + off_nfunc);
          nVar = get_word st (ea + off_nvar);
          nTlsVar = get_word st (ea + off_ntlsvar)
      in if unat structsize = sizeof_scelibstub_ppu32 then
           (let st1 = create_struct ea sizeof_scelibstub_ppu32 ''_scelibstub_ppu32'' st;
                libNamePtr = (ucast (get_dword st1 (ea + off_libname)) :: ea_t);
                funcNidTable = (ucast (get_dword st1 (ea + off_func_nidtable)) :: ea_t);
                funcTable = (ucast (get_dword st1 (ea + off_func_table)) :: ea_t);
                varNidTable = (ucast (get_dword st1 (ea + off_var_nidtable)) :: ea_t);
                varTable = (ucast (get_dword st1 (ea + off_var_table)) :: ea_t);
                tlsNidTable = (ucast (get_dword st1 (ea + off_tls_nidtable)) :: ea_t);
                tlsTable = (ucast (get_dword st1 (ea + off_tls_table)) :: ea_t);
                libName = db_strlit st1 libNamePtr;
                st2 = force_name ea
                        (qsnprintf MAXNAMELEN (''_'' @ libName @ ''_0001_stub_head'')) st1;
                st3 = force_name libNamePtr
                        (qsnprintf MAXNAMELEN (''_'' @ libName @ ''_stub_str'')) st2;
                st4 = force_name (libNamePtr - 4)
                        (qsnprintf MAXNAMELEN (''_sce_package_version_'' @ libName)) st3;
                st5 = (if funcNidTable \<noteq> 0 \<and> funcTable \<noteq> 0 then
                         fold (importFuncSlot libName funcNidTable funcTable)
                           [0 ..< unat nFunc] st4
                       else st4);
                st6 = (if varNidTable \<noteq> 0 \<and> varTable \<noteq> 0 then
                         fold (importVarSlot libName varNidTable varTable)
                           [0 ..< unat nVar] st5
                       else st5)
            in if tlsNidTable \<noteq> 0 \<and> tlsTable \<noteq> 0 then
                 fold (importTlsSlot libName tlsNidTable tlsTable) [0 ..< unat nVar] st6
               else st6)
         else msg (MsgUnknownImport ea) st)"

partial_function (option) importLoop :: "ea_t \<Rightarrow> ea_t \<Rightarrow> cell_loader \<Rightarrow> cell_loader option" where
  "importLoop ea stubEnd st =
     (if ea < stubEnd then importLoop (ea + ucast (get_byte st ea)) stubEnd (importEntry ea st)
      else Some st)"

definition importMarkers :: "uint32 \<Rightarrow> uint32 \<Rightarrow> cell_loader \<Rightarrow> cell_loader" where
  "importMarkers stubTop stubEnd st =
     force_name (ucast stubEnd) ''__end_of_section_lib_stub''
       (force_name (ucast (stubTop - 4)) ''__begin_of_section_lib_stub''
          (msg (Msg ''Loading imports...'') st))"

definition loadImports :: "uint32 \<Rightarrow> uint32 \<Rightarrow> cell_loader \<Rightarrow> cell_loader option" where
  "loadImports stubTop stubEnd st =
     importLoop (ucast stubTop) (ucast stubEnd) (importMarkers stubTop stubEnd st)"

section \<open>applyModuleInfo\<close>

text \<open>
  The module-info structure: the 32-byte common part, then \<open>gp_value\<close>, \<open>ent_top\<close>,
  \<open>ent_end\<close>, \<open>stub_top\<close> and \<open>stub_end\<close>, 4 bytes each.
\<close>

definition sizeof_scemoduleinfo_ppu32 :: nat where "sizeof_scemoduleinfo_ppu32 = 52"
definition off_ent_top :: ea_t where "off_ent_top = 36"
definition off_ent_end :: ea_t where "off_ent_end = 40"
definition off_stub_top :: ea_t where "off_stub_top = 44"
definition off_stub_end :: ea_t where "off_stub_end = 48"

definition add_entry :: "nat \<Rightarrow> ea_t \<Rightarrow> string \<Rightarrow> bool \<Rightarrow> cell_loader \<Rightarrow> cell_loader" where
  "add_entry ord ea name makecode st =
     st\<lparr>db_calls := db_calls st @ [AddEntry ord ea name makecode]\<rparr>"

text \<open>
  \<open>None\<close> is a run in which one of the two table walks does not return; a fault is the
  lookup of the first segment in an empty segment table.
\<close>

definition applyModuleInfo :: "cell_loader \<Rightarrow> (fault + cell_loader) option" where
  "applyModuleInfo st =
     (case getSegments (m_elf st) of
        [] \<Rightarrow> Some (Inl OutOfBounds)
      | firstSegment # _ \<Rightarrow>
          (let modInfoEa = (p_vaddr firstSegment + m_relocAddr st) +
                           (p_paddr firstSegment - p_offset firstSegment);
               st1 = create_struct modInfoEa sizeof_scemoduleinfo_ppu32 ''_scemoduleinfo'' st
           in case loadExports (get_dword st1 (modInfoEa + off_ent_top))
                     (get_dword st1 (modInfoEa + off_ent_end)) st1 of
                None \<Rightarrow> None
              | Some st2 \<Rightarrow>
                  (case loadImports (get_dword st2 (modInfoEa + off_stub_top))
                          (get_dword st2 (modInfoEa + off_stub_end)) st2 of
                     None \<Rightarrow> None
                   | Some st3 \<Rightarrow> Some (Inr (add_entry 0 modInfoEa ''module_info'' False st3)))))"

text \<open>
  The whole module branch of \<open>apply\<close>: the relocation stage, then (after the message)
  \<open>applyModuleInfo\<close>.
\<close>

definition apply_module :: "cell_loader \<Rightarrow> (fault + cell_loader) option" where
  "apply_module st =
     (case apply_prx st of
        Inl e \<Rightarrow> Some (Inl e)
      | Inr st' \<Rightarrow> applyModuleInfo (msg (Msg ''Applying Module Info...'') st'))"

section \<open>Concrete images\<close>

text \<open>Small images on which the definitions above are evaluated.\<close>

primrec load_bytes :: "ea_t \<Rightarrow> uchar list \<Rightarrow> (ea_t \<Rightarrow> uchar) \<Rightarrow> (ea_t \<Rightarrow> uchar)" where
  "load_bytes ea [] mem = mem"
| "load_bytes ea (b # bs) mem = load_bytes (ea + 1) bs (mem(ea := b))"

definition mkRela :: "uint64 \<Rightarrow> uint64 \<Rightarrow> uint64 \<Rightarrow> Elf64_Rela" where
  "mkRela off info addend = \<lparr> r_offset = off, r_info = info, r_addend = addend \<rparr>"

definition mkSym :: "uint16 \<Rightarrow> uint64 \<Rightarrow> Elf64_Sym" where
  "mkSym shndx v =
     \<lparr> st_name = 0, st_info = 0, st_other = 0, st_shndx = shndx, st_value = v, st_size = 0 \<rparr>"

definition mkSection ::
  "string \<Rightarrow> uint32 \<Rightarrow> uint64 \<Rightarrow> uint64 \<Rightarrow> uint64 \<Rightarrow> uint32 \<Rightarrow> Elf64_Rela list \<Rightarrow> Elf64_Shdr" where
  "mkSection name type flags addr sz info relas =
     \<lparr> sh_name = 0, sh_type = type, sh_flags = flags, sh_addr = addr, sh_offset = 0,
       sh_size = sz, sh_link = 0, sh_info = info, sh_addralign = 0, sh_entsize = 0,
       sec_name = name, sec_rela = relas \<rparr>"

definition mkSegment :: "uint32 \<Rightarrow> uint64 \<Rightarrow> uint64 \<Rightarrow> Elf64_Rela list \<Rightarrow> Elf64_Phdr" where
  "mkSegment type vaddr filesz relas =
     \<lparr> p_type = type, p_flags = 0, p_offset = 0, p_vaddr = vaddr, p_paddr = 0,
       p_filesz = filesz, p_memsz = filesz, p_align = 0, seg_rela = relas \<rparr>"

definition mkPrx :: "Elf64_Phdr list \<Rightarrow> Elf64_Shdr list \<Rightarrow> Elf64_Sym list \<Rightarrow> elf_reader" where
  "mkPrx segments sections symbols =
     \<lparr> e_type = ET_SCE_PPURELEXEC, getSegments = segments, getSections = sections,
       getSymbols = symbols \<rparr>"

definition PT_LOAD :: uint32 where "PT_LOAD = 1"
definition SHT_PROGBITS :: uint32 where "SHT_PROGBITS = 1"

text \<open>
  A module in the legacy format (marker segment present): a code section at 0x1000, a
  relocation section for it with four entries (an invalid type; a symbol index past the
  table; a symbol whose section index is past the section table; an absolute symbol), and
  three symbols.
\<close>

definition rela_section :: Elf64_Shdr where
  "rela_section = mkSection ''.rela.text'' SHT_RELA 0 0 96 0
     [swap_rela (mkRela 0 0x00000007000000C8 0),
      swap_rela (mkRela 0 0x0000000700000001 0),
      swap_rela (mkRela 0 0x0000000200000001 0),
      swap_rela (mkRela 8 0x0000000100000001 4)]"

definition img_sec :: elf_reader where
  "img_sec = mkPrx [mkSegment PT_SCE_SEGSYM 0 0 []]
     [mkSection ''.text'' SHT_PROGBITS SHF_ALLOC 0x1000 0x100 0 [], rela_section]
     [mkSym 0 0, mkSym SHN_ABS 0x20, mkSym 9 0]"

definition ldr_sec :: cell_loader where
  "ldr_sec = new_cell_loader img_sec 0 [] (\<lambda>a. 0) (\<lambda>a. [])"

text \<open>
  A module in the current format: one loadable segment at 0x1000 and a relocation-table
  segment with three entries (an invalid type with both segment indices 0; patch segment
  5, which does not exist; a plain 32-bit address relocation into segment 0).
\<close>

definition rela_segment :: Elf64_Phdr where
  "rela_segment = mkSegment PT_SCE_PPURELA 0 72
     [swap_rela (mkRela 0 0x00000000000000C8 0),
      swap_rela (mkRela 0 0x0000000500000001 0),
      swap_rela (mkRela 8 0x0000000000000001 4)]"

definition img_seg :: elf_reader where
  "img_seg = mkPrx [mkSegment PT_LOAD 0x1000 0x100 [], rela_segment] [] []"

definition ldr_seg :: cell_loader where
  "ldr_seg = new_cell_loader img_seg 0 [] (\<lambda>a. 0) (\<lambda>a. [])"

text \<open>
  A current-format module whose relocation table holds one \<open>TOC16\<close> entry (patch and
  symbol segment 0). Its module-info structure sits at 0x1000 and its \<open>gp_value\<close> field,
  at 0x1020, holds 0x2000.
\<close>

definition img_toc_seg :: elf_reader where
  "img_toc_seg = mkPrx
     [mkSegment PT_LOAD 0x1000 0x100 [],
      mkSegment PT_SCE_PPURELA 0 24 [swap_rela (mkRela 0x40 0x000000000000002F 0x50)]]
     [] []"

definition ldr_toc_seg :: cell_loader where
  "ldr_toc_seg =
     new_cell_loader img_toc_seg 0 [] (load_bytes 0x1020 [0x00, 0x00, 0x20, 0x00] (\<lambda>a. 0)) (\<lambda>a. [])"

text \<open>
  A legacy-format module (marker present) with a \<open>.toc\<close> section at 0x3000 and one
  \<open>TOC16\<close> entry against a symbol of that section.
\<close>

definition toc_rela_section :: Elf64_Shdr where
  "toc_rela_section = mkSection ''.rela.text'' SHT_RELA 0 0 24 0
     [swap_rela (mkRela 0x40 0x000000000000002F 0x50)]"

definition img_toc_sec :: elf_reader where
  "img_toc_sec = mkPrx
     [mkSegment PT_LOAD 0x1000 0x100 [], mkSegment PT_SCE_SEGSYM 0 0 []]
     [mkSection ''.text'' SHT_PROGBITS SHF_ALLOC 0x1000 0x100 0 [],
      mkSection ''.toc'' SHT_PROGBITS SHF_ALLOC 0x3000 0x100 0 [],
      toc_rela_section]
     [mkSym 1 0x10]"

definition ldr_toc_sec :: cell_loader where
  "ldr_toc_sec = new_cell_loader img_toc_sec 0 [] (\<lambda>a. 0) (\<lambda>a. [])"

text \<open>
  A legacy-format module (marker present) without a \<open>.toc\<close> section and without
  relocations; the \<open>gp_value\<close> field of its module-info structure, at 0x1020, holds 0x2000.
\<close>

definition img_notoc :: elf_reader where
  "img_notoc = mkPrx
     [mkSegment PT_LOAD 0x1000 0x100 [], mkSegment PT_SCE_SEGSYM 0 0 []]
     [mkSection ''.text'' SHT_PROGBITS SHF_ALLOC 0x1000 0x100 0 []]
     []"

definition ldr_notoc :: cell_loader where
  "ldr_notoc =
     new_cell_loader img_notoc 0 [] (load_bytes 0x1020 [0x00, 0x00, 0x20, 0x00] (\<lambda>a. 0)) (\<lambda>a. [])"

text \<open>A database with every byte zero, and no ELF tables.\<close>

definition ldr_zero :: cell_loader where
  "ldr_zero = new_cell_loader (mkPrx [] [] []) 0 [] (\<lambda>a. 0) (\<lambda>a. [])"

text \<open>
  One import-table entry at 0x1000 for the library \<open>cellFs\<close> (its name string at
  0x2000): two functions, NID table at 0x3000 and stub table at 0x3100; no variable and no
  TLS tables. The first NID is in the name database, the second is not. The two stub
  slots hold the code addresses 0x4000 and 0x4010.
\<close>

definition fs_stub_bytes :: "ea_t \<Rightarrow> uchar" where
  "fs_stub_bytes =
     load_bytes 0x1000
       [0x2C, 0x00, 0x00, 0x00, 0x00, 0x00, 0x00, 0x02, 0x00, 0x00, 0x00, 0x00,
        0x00, 0x00, 0x00, 0x00,
        0x00, 0x00, 0x20, 0x00,
        0x00, 0x00, 0x30, 0x00,
        0x00, 0x00, 0x31, 0x00,
        0x00, 0x00, 0x00, 0x00,
        0x00, 0x00, 0x00, 0x00,
        0x00, 0x00, 0x00, 0x00,
        0x00, 0x00, 0x00, 0x00]
       (load_bytes 0x3000 [0x71, 0x8B, 0xF5, 0xF8, 0x11, 0x11, 0x11, 0x11]
          (load_bytes 0x3100 [0x00, 0x00, 0x40, 0x00, 0x00, 0x00, 0x40, 0x10] (\<lambda>a. 0)))"

definition ldr_fs :: cell_loader where
  "ldr_fs =
     new_cell_loader (mkPrx [] [] []) 0 [(''cellFs'', [(0x718BF5F8, ''cellFsOpen'')])]
       fs_stub_bytes (\<lambda>a. if a = 0x2000 then ''cellFs'' else [])"

text \<open>
  One import-table entry at 0x1000 for the same library with no functions, two variables
  and one TLS variable; the function and variable table pointers are null, the TLS NID
  table is at 0x3000 and the TLS table at 0x3100.
\<close>

definition tls_stub_bytes :: "ea_t \<Rightarrow> uchar" where
  "tls_stub_bytes =
     load_bytes 0x1000
       [0x2C, 0x00, 0x00, 0x00, 0x00, 0x00, 0x00, 0x00, 0x00, 0x02, 0x00, 0x01,
        0x00, 0x00, 0x00, 0x00,
        0x00, 0x00, 0x20, 0x00,
        0x00, 0x00, 0x00, 0x00,
        0x00, 0x00, 0x00, 0x00,
        0x00, 0x00, 0x00, 0x00,
        0x00, 0x00, 0x00, 0x00,
        0x00, 0x00, 0x30, 0x00,
        0x00, 0x00, 0x31, 0x00]
       (\<lambda>a. 0)"

definition ldr_tls :: cell_loader where
  "ldr_tls =
     new_cell_loader (mkPrx [] [] []) 0 [] tls_stub_bytes
       (\<lambda>a. if a = 0x2000 then ''cellFs'' else [])"

text \<open>
  A legacy-format module with three symbols whose relocation section holds two entries:
  the first names symbol index 3, one past the last symbol; the second is a plain 32-bit
  address relocation against the absolute symbol 1.
\<close>

definition rela_section_edge :: Elf64_Shdr where
  "rela_section_edge = mkSection ''.rela.text'' SHT_RELA 0 0 48 0
     [swap_rela (mkRela 0 0x0000000300000001 0),
      swap_rela (mkRela 8 0x0000000100000001 4)]"

definition img_sec_edge :: elf_reader where
  "img_sec_edge = mkPrx [mkSegment PT_SCE_SEGSYM 0 0 []]
     [mkSection ''.text'' SHT_PROGBITS SHF_ALLOC 0x1000 0x100 0 [], rela_section_edge]
     [mkSym 0 0, mkSym SHN_ABS 0x20, mkSym 9 0]"

definition ldr_sec_edge :: cell_loader where
  "ldr_sec_edge = new_cell_loader img_sec_edge 0 [] (\<lambda>a. 0) (\<lambda>a. [])"




section \<open>Properties of the relocation engine\<close>

lemmas reloc_codes =
  R_PPC64_NONE_def R_PPC64_ADDR32_def R_PPC64_ADDR16_LO_def R_PPC64_ADDR16_HA_def
  R_PPC64_REL24_def R_PPC64_TOC16_def R_PPC64_TOC16_DS_def R_PPC64_TLSGD_def

lemmas image_defs =
  mkRela_def mkSym_def mkSection_def mkSegment_def mkPrx_def new_cell_loader_def
  isLoadingPrx_def ET_SCE_PPURELEXEC_def PT_LOAD_def SHT_PROGBITS_def SHT_RELA_def
  SHF_ALLOC_def SHN_ABS_def PT_SCE_PPURELA_def PT_SCE_SEGSYM_def swap_def swap_rela_def
  ELF64_R_SYM_def ELF64_R_TYPE_def getNumSymbols_def getNumSections_def sizeof_Elf64_Rela_def

subsection \<open>Bytes and words\<close>

lemma be32_split:
  "be32 (ucast (drop_bit 24 v)) (ucast (drop_bit 16 v)) (ucast (drop_bit 8 v)) (ucast v) = v"
proof (rule bit_word_eqI)
  fix n :: nat
  assume "n < LENGTH(32)"
  then consider "n < 8" | "8 \<le> n" "n < 16" | "16 \<le> n" "n < 24" | "24 \<le> n" "n < 32"
    by fastforce
  then show "bit (be32 (ucast (drop_bit 24 v)) (ucast (drop_bit 16 v))
                   (ucast (drop_bit 8 v)) (ucast v)) n = bit v n"
    by cases (auto simp: be32_def bit_simps)
qed

lemma be16_split: "be16 (ucast (drop_bit 8 v)) (ucast v) = v"
proof (rule bit_word_eqI)
  fix n :: nat
  assume "n < LENGTH(16)"
  then consider "n < 8" | "8 \<le> n" "n < 16"
    by fastforce
  then show "bit (be16 (ucast (drop_bit 8 v)) (ucast v)) n = bit v n"
    by cases (auto simp: be16_def bit_simps)
qed

lemma get_dword_patch_dword: "get_dword (patch_dword ea v st) ea = v"
  by (simp add: get_dword_def patch_dword_def be32_split)

lemma get_word_patch_word: "get_word (patch_word ea v st) ea = v"
  by (simp add: get_word_def patch_word_def be16_split)

lemma db_orig_patch_dword: "db_orig (patch_dword ea v st) = db_orig st"
  by (simp add: patch_dword_def)

lemma ucast_down_plus: "(ucast ((a::uint64) + b) :: uint32) = ucast a + ucast b"
proof -
  have d: "(4294967296::nat) dvd 18446744073709551616" by simp
  show ?thesis
    by (simp add: word_unat_eq_iff unsigned_ucast_eq take_bit_eq_mod unat_word_ariths
        mod_mod_cancel [OF d] mod_simps)
qed

lemma ucast_down_up: "(ucast (ucast (x::uint32) :: uint64) :: uint32) = x"
  by (rule bit_word_eqI) (auto simp: bit_simps)

lemma ucast_sum_down:
  "(ucast ((ucast (ucast (v::uint64) :: uint32) :: uint64) + v + a) :: uint32) = ucast (2 * v + a)"
  by (simp only: ucast_down_plus ucast_down_up mult_2)

subsection \<open>The entries of the two concrete tables, byte-swapped\<close>

lemma rela_section_0:
  "swap_rela (sec_rela rela_section ! 0) = mkRela 0 0x00000007000000C8 0"
  by (simp add: rela_section_def mkSection_def mkRela_def swap_rela_def swap_def)

lemma rela_section_1:
  "swap_rela (sec_rela rela_section ! 1) = mkRela 0 0x0000000700000001 0"
  by (simp add: rela_section_def mkSection_def mkRela_def swap_rela_def swap_def)

lemma rela_section_2:
  "swap_rela (sec_rela rela_section ! 2) = mkRela 0 0x0000000200000001 0"
  by (simp add: rela_section_def mkSection_def mkRela_def swap_rela_def swap_def)

lemma rela_section_3:
  "swap_rela (sec_rela rela_section ! 3) = mkRela 8 0x0000000100000001 4"
  by (simp add: rela_section_def mkSection_def mkRela_def swap_rela_def swap_def)

lemma rela_segment_0:
  "swap_rela (seg_rela rela_segment ! 0) = mkRela 0 0x00000000000000C8 0"
  by (simp add: rela_segment_def mkSegment_def mkRela_def swap_rela_def swap_def)

lemma length_rela_section: "length (sec_rela rela_section) = 4"
  by (simp add: rela_section_def mkSection_def)

lemma length_rela_segment: "length (seg_rela rela_segment) = 3"
  by (simp add: rela_segment_def mkSegment_def)

subsection \<open>Index validation\<close>

text \<open>
  What the checks of the section-based walk do catch: an entry that reaches them (its type
  is in the supported range) and whose symbol index is greater than the number of symbols,
  or whose symbol carries a section index greater than the number of sections other than
  \<open>SHN_ABS\<close>, is logged and skipped; the walk goes on with the next entry from the same
  state plus the one message.
\<close>

lemma section_walk_skips_index_above_count:
  assumes "i < length relocations"
    and "ucast (ELF64_R_TYPE (r_info (swap_rela (relocations ! i)))) \<noteq> R_PPC64_NONE"
    and "(ucast (ELF64_R_TYPE (r_info (swap_rela (relocations ! i)))) :: uint32) \<le> R_PPC64_TLSGD"
    and "symIdx = unat (ucast (ELF64_R_SYM (r_info (swap_rela (relocations ! i)))) :: uint32)"
  shows "(getNumSymbols (m_elf st) < symIdx \<longrightarrow>
            relaLoop (applySectionRela section) relocations (i # is) st =
            relaLoop (applySectionRela section) relocations is
              (msg (Msg ''Invalid symbol index!'') st)) \<and>
         (symIdx < getNumSymbols (m_elf st) \<and>
          getNumSections (m_elf st) < unat (st_shndx (getSymbols (m_elf st) ! symIdx)) \<and>
          st_shndx (getSymbols (m_elf st) ! symIdx) \<noteq> SHN_ABS \<longrightarrow>
            relaLoop (applySectionRela section) relocations (i # is) st =
            relaLoop (applySectionRela section) relocations is
              (msg (Msg ''Invalid symbol section index!'') st))"
  using assms
  by (auto simp: applySectionRela_def Let_def getNumSymbols_def)

lemma section_walk_skips_index_above_count_on_image:
  "getNumSymbols (m_elf ldr_sec) < 7 \<and>
   relaLoop (applySectionRela rela_section) (sec_rela rela_section) [1, 2] ldr_sec =
     relaLoop (applySectionRela rela_section) (sec_rela rela_section) [2]
       (msg (Msg ''Invalid symbol index!'') ldr_sec) \<and>
   getNumSections (m_elf ldr_sec) < unat (st_shndx (getSymbols (m_elf ldr_sec) ! 2)) \<and>
   relaLoop (applySectionRela rela_section) (sec_rela rela_section) [2, 3] ldr_sec =
     relaLoop (applySectionRela rela_section) (sec_rela rela_section) [3]
       (msg (Msg ''Invalid symbol section index!'') ldr_sec)"
proof -
  have a: "1 < length (sec_rela rela_section)" "2 < length (sec_rela rela_section)"
    by (simp_all add: length_rela_section)
  have b: "ucast (ELF64_R_TYPE (r_info (swap_rela (sec_rela rela_section ! 1)))) \<noteq> R_PPC64_NONE"
    unfolding rela_section_1 by (simp add: mkRela_def ELF64_R_TYPE_def R_PPC64_NONE_def)
  have c: "(ucast (ELF64_R_TYPE (r_info (swap_rela (sec_rela rela_section ! 1)))) :: uint32)
      \<le> R_PPC64_TLSGD"
    unfolding rela_section_1 by (simp add: mkRela_def ELF64_R_TYPE_def R_PPC64_TLSGD_def)
  have d: "7 = unat (ucast (ELF64_R_SYM (r_info (swap_rela (sec_rela rela_section ! 1)))) :: uint32)"
    unfolding rela_section_1 by (simp add: mkRela_def ELF64_R_SYM_def)
  have b': "ucast (ELF64_R_TYPE (r_info (swap_rela (sec_rela rela_section ! 2)))) \<noteq> R_PPC64_NONE"
    unfolding rela_section_2 by (simp add: mkRela_def ELF64_R_TYPE_def R_PPC64_NONE_def)
  have c': "(ucast (ELF64_R_TYPE (r_info (swap_rela (sec_rela rela_section ! 2)))) :: uint32)
      \<le> R_PPC64_TLSGD"
    unfolding rela_section_2 by (simp add: mkRela_def ELF64_R_TYPE_def R_PPC64_TLSGD_def)
  have d': "2 = unat (ucast (ELF64_R_SYM (r_info (swap_rela (sec_rela rela_section ! 2)))) :: uint32)"
    unfolding rela_section_2 by (simp add: mkRela_def ELF64_R_SYM_def)
  have e: "getNumSymbols (m_elf ldr_sec) = 3" "getNumSections (m_elf ldr_sec) = 2"
    by (simp_all add: ldr_sec_def img_sec_def new_cell_loader_def mkPrx_def getNumSymbols_def
        getNumSections_def)
  have f: "st_shndx (getSymbols (m_elf ldr_sec) ! 2) = 9"
    by (simp add: ldr_sec_def img_sec_def new_cell_loader_def mkPrx_def mkSym_def)
  have g: "(9::uint16) \<noteq> SHN_ABS" by (simp add: SHN_ABS_def)
  from section_walk_skips_index_above_count [OF a(1) b c d, of ldr_sec rela_section "[2]"]
    section_walk_skips_index_above_count [OF a(2) b' c' d', of ldr_sec rela_section "[3]"] e f g
  show ?thesis by simp
qed

text \<open>
  Claim C3 does not hold of the code, in two ways. The section-based walk tests the symbol
  index with \<open>sym > getNumSymbols()\<close>, so the index equal to the number of symbols
  passes the test: in the first concrete module (3 symbols, first entry naming symbol 3)
  the entry is not skipped, the symbol table is indexed one past its end, and the second
  entry is never reached. The segment-based walk does not test its two segment indices at
  all: in the second concrete module the second entry names patch segment 5 of a
  two-segment table, the table is indexed past its end, and the third entry is never
  reached.
\<close>

theorem unchecked_index_reads_past_table:
  "getNumSymbols (m_elf ldr_sec_edge) = 3 \<and>
   ucast (ELF64_R_SYM (r_info (swap_rela (sec_rela rela_section_edge ! 0)))) = (3 :: uint32) \<and>
   applySectionRelocations ldr_sec_edge = Inl OutOfBounds \<and>
   length (getSegments (m_elf ldr_seg)) = 2 \<and>
   ELF64_R_SYM (r_info (swap_rela (seg_rela rela_segment ! 1))) AND 0xFF = 5 \<and>
   applySegmentRelocations ldr_seg = Inl OutOfBounds"
proof -
  have a: "getNumSymbols (m_elf ldr_sec_edge) = 3"
    by (simp add: ldr_sec_edge_def img_sec_edge_def new_cell_loader_def mkPrx_def
        getNumSymbols_def)
  have b: "ucast (ELF64_R_SYM (r_info (swap_rela (sec_rela rela_section_edge ! 0)))) = (3 :: uint32)"
    by (simp add: rela_section_edge_def mkSection_def mkRela_def swap_rela_def swap_def
        ELF64_R_SYM_def)
  have c: "applySectionRelocations ldr_sec_edge = Inl OutOfBounds"
    by (simp add: applySectionRelocations_def ldr_sec_edge_def img_sec_edge_def
        rela_section_edge_def image_defs reloc_codes applySectionRela_def msg_def Let_def
        upt_conv_Cons)
  have d: "length (getSegments (m_elf ldr_seg)) = 2"
    by (simp add: ldr_seg_def img_seg_def new_cell_loader_def mkPrx_def)
  have e: "ELF64_R_SYM (r_info (swap_rela (seg_rela rela_segment ! 1))) AND 0xFF = 5"
    by (simp add: rela_segment_def mkSegment_def mkRela_def swap_rela_def swap_def
        ELF64_R_SYM_def)
  have f: "applySegmentRelocations ldr_seg = Inl OutOfBounds"
    by (simp add: applySegmentRelocations_def ldr_seg_def img_seg_def rela_segment_def
        image_defs reloc_codes applySegmentRela_def applyRelocation_def msg_def Let_def
        upt_conv_Cons)
  from a b c d e f show ?thesis by blast
qed

subsection \<open>Relocation types outside the supported range\<close>

text \<open>
  Where an entry whose type code is above \<open>R_PPC64_TLSGD\<close> changes no byte and the walk
  goes on: the section-based walk logs it as invalid and continues with the next entry;
  the shared routine \<open>applyRelocation\<close> logs it as unsupported and writes nothing,
  whatever the addresses. The segment-based walk does not test the range itself; it looks
  up the entry's two segments first and goes on after the message of \<open>applyRelocation\<close>
  only if both lookups are within the table.
\<close>

lemma invalid_type_no_write_where_looked_up:
  assumes "i < length relocations"
    and "ty = ucast (ELF64_R_TYPE (r_info (swap_rela (relocations ! i))))"
    and "R_PPC64_TLSGD < ty"
    and "sf = ELF64_R_SYM (r_info (swap_rela (relocations ! i)))"
  shows "relaLoop (applySectionRela section) relocations (i # is) st =
           relaLoop (applySectionRela section) relocations is (msg (MsgInvalidRelocType ty) st) \<and>
         db_bytes (msg (MsgInvalidRelocType ty) st) = db_bytes st \<and>
         applyRelocation ty addr saddr st = Inr (msg (MsgUnsupportedReloc ty) st) \<and>
         db_bytes (msg (MsgUnsupportedReloc ty) st) = db_bytes st \<and>
         relaLoop applySegmentRela relocations (i # is) st =
           (if (sf AND 0xFF = 0xFF \<or> unat (sf AND 0xFF) < length (getSegments (m_elf st))) \<and>
               (drop_bit 8 (sf AND 0x7FFFFF00) = 0xFF \<or>
                unat (drop_bit 8 (sf AND 0x7FFFFF00)) < length (getSegments (m_elf st)))
            then relaLoop applySegmentRela relocations is (msg (MsgUnsupportedReloc ty) st)
            else Inl OutOfBounds)"
proof -
  have nz: "ty \<noteq> R_PPC64_NONE" using assms(3) by (auto simp: reloc_codes)
  have nz64: "ELF64_R_TYPE (r_info (swap_rela (relocations ! i))) \<noteq> 0"
    using nz assms(2) by (auto simp: reloc_codes)
  have inv: "\<And>a s. applyRelocation ty a s st = Inr (msg (MsgUnsupportedReloc ty) st)"
    using assms(3) by (auto simp: applyRelocation_def reloc_codes Let_def)
  have sec: "applySectionRela section (swap_rela (relocations ! i)) st =
      Inr (msg (MsgInvalidRelocType ty) st)"
    using assms(2,3) nz by (simp add: applySectionRela_def Let_def)
  have seg: "applySegmentRela (swap_rela (relocations ! i)) st =
      (if (sf AND 0xFF = 0xFF \<or> unat (sf AND 0xFF) < length (getSegments (m_elf st))) \<and>
               (drop_bit 8 (sf AND 0x7FFFFF00) = 0xFF \<or>
                unat (drop_bit 8 (sf AND 0x7FFFFF00)) < length (getSegments (m_elf st)))
       then Inr (msg (MsgUnsupportedReloc ty) st) else Inl OutOfBounds)"
    using nz64 assms(2,4) inv
    by (auto simp add: applySegmentRela_def Let_def R_PPC64_NONE_def not_less)
  show ?thesis
    using assms(1) sec seg inv by (simp add: msg_def)
qed

lemma invalid_type_no_write_on_images:
  "relaLoop (applySectionRela rela_section) (sec_rela rela_section) [0, 1] ldr_sec =
     relaLoop (applySectionRela rela_section) (sec_rela rela_section) [1]
       (msg (MsgInvalidRelocType 200) ldr_sec) \<and>
   relaLoop applySegmentRela (seg_rela rela_segment) [0, 2] ldr_seg =
     relaLoop applySegmentRela (seg_rela rela_segment) [2] (msg (MsgUnsupportedReloc 200) ldr_seg)"
proof -
  have a: "0 < length (sec_rela rela_section)"
    by (simp add: length_rela_section)
  have b: "200 = ucast (ELF64_R_TYPE (r_info (swap_rela (sec_rela rela_section ! 0))))"
    unfolding rela_section_0 by (simp add: mkRela_def ELF64_R_TYPE_def)
  have c: "R_PPC64_TLSGD < 200"
    by (simp add: R_PPC64_TLSGD_def)
  have d: "7 = ELF64_R_SYM (r_info (swap_rela (sec_rela rela_section ! 0)))"
    unfolding rela_section_0 by (simp add: mkRela_def ELF64_R_SYM_def)
  have a': "0 < length (seg_rela rela_segment)"
    by (simp add: length_rela_segment)
  have b': "200 = ucast (ELF64_R_TYPE (r_info (swap_rela (seg_rela rela_segment ! 0))))"
    unfolding rela_segment_0 by (simp add: mkRela_def ELF64_R_TYPE_def)
  have d': "0 = ELF64_R_SYM (r_info (swap_rela (seg_rela rela_segment ! 0)))"
    unfolding rela_segment_0 by (simp add: mkRela_def ELF64_R_SYM_def)
  have e: "length (getSegments (m_elf ldr_seg)) = 2"
    by (simp add: ldr_seg_def img_seg_def new_cell_loader_def mkPrx_def)
  from invalid_type_no_write_where_looked_up [OF a b c d, of rela_section "[1]" ldr_sec 0 0]
    invalid_type_no_write_where_looked_up [OF a' b' c d', of rela_section "[2]" ldr_seg 0 0] e
  show ?thesis by simp
qed


subsection \<open>REL24\<close>

text \<open>
  Claim C5. A \<open>REL24\<close> relocation always succeeds; the word then found at the (relocated)
  target is the original, pre-patch word with only the bits of the mask 0x03FFFFFC
  replaced by those of (value - target); outside the mask it agrees with the original
  word, and the original bytes themselves are untouched.
\<close>

theorem rel24_keeps_bits_outside_displacement:
  "\<exists>st'. applyRelocation R_PPC64_REL24 addr saddr st = Inr st' \<and>
     get_dword st' (ucast (addr + ucast (m_relocAddr st))) =
       (get_original_dword st (ucast (addr + ucast (m_relocAddr st))) AND NOT 0x03FFFFFC) OR
       (((saddr + ucast (m_relocAddr st)) - (addr + ucast (m_relocAddr st))) AND 0x03FFFFFC) \<and>
     get_dword st' (ucast (addr + ucast (m_relocAddr st))) AND NOT 0x03FFFFFC =
       get_original_dword st (ucast (addr + ucast (m_relocAddr st))) AND NOT 0x03FFFFFC \<and>
     db_orig st' = db_orig st"
proof -
  let ?a = "addr + ucast (m_relocAddr st)"
  let ?s = "saddr + ucast (m_relocAddr st)"
  let ?v = "(get_original_dword st (ucast ?a) AND NOT 0x03FFFFFC) OR ((?s - ?a) AND 0x03FFFFFC)"
  have run: "applyRelocation R_PPC64_REL24 addr saddr st = Inr (patch_dword (ucast ?a) ?v st)"
    by (simp add: applyRelocation_def reloc_codes Let_def)
  have keep: "?v AND NOT 0x03FFFFFC = get_original_dword st (ucast ?a) AND NOT 0x03FFFFFC"
    by (rule bit_word_eqI) (auto simp: bit_simps)
  show ?thesis
    unfolding run using keep
    by (simp add: get_dword_patch_dword db_orig_patch_dword)
qed

subsection \<open>Absolute symbols\<close>

text \<open>
  Claim C10. In the section-based path, for an entry of a supported type whose symbol has
  section index \<open>SHN_ABS\<close>, the value address handed to \<open>applyRelocation\<close> is twice the
  symbol's \<open>st_value\<close> plus the addend (kept to 32 bits); the relocation base is added
  only inside \<open>applyRelocation\<close>.
\<close>

theorem abs_symbol_value_counted_twice:
  assumes "ty = ucast (ELF64_R_TYPE (r_info rela))"
    and "ty \<noteq> R_PPC64_NONE" and "ty \<le> R_PPC64_TLSGD"
    and "symIdx = unat (ucast (ELF64_R_SYM (r_info rela)) :: uint32)"
    and "symIdx < length (getSymbols (m_elf st))"
    and "st_shndx (getSymbols (m_elf st) ! symIdx) = SHN_ABS"
    and "unat (sh_info section) < length (getSections (m_elf st))"
  shows "applySectionRela section rela st =
     applyRelocation ty
       (ucast (sh_addr (getSections (m_elf st) ! unat (sh_info section)) + r_offset rela))
       (ucast (2 * st_value (getSymbols (m_elf st) ! symIdx) + r_addend rela)) st"
  using assms
  by (auto simp: applySectionRela_def Let_def getNumSymbols_def not_less not_le ucast_sum_down)

theorem abs_symbol_value_counted_twice_witness:
  "applySectionRela rela_section (mkRela 8 0x0000000100000001 4) ldr_sec =
   applyRelocation R_PPC64_ADDR32 0x1008 0x44 ldr_sec"
proof -
  have a: "R_PPC64_ADDR32 = ucast (ELF64_R_TYPE (r_info (mkRela 8 0x0000000100000001 4)))"
    by (simp add: mkRela_def ELF64_R_TYPE_def R_PPC64_ADDR32_def)
  have b: "R_PPC64_ADDR32 \<noteq> R_PPC64_NONE" by (simp add: reloc_codes)
  have c: "R_PPC64_ADDR32 \<le> R_PPC64_TLSGD" by (simp add: reloc_codes)
  have d: "1 = unat (ucast (ELF64_R_SYM (r_info (mkRela 8 0x0000000100000001 4))) :: uint32)"
    by (simp add: mkRela_def ELF64_R_SYM_def)
  have e: "1 < length (getSymbols (m_elf ldr_sec))"
    by (simp add: ldr_sec_def img_sec_def new_cell_loader_def mkPrx_def)
  have f: "st_shndx (getSymbols (m_elf ldr_sec) ! 1) = SHN_ABS"
    by (simp add: ldr_sec_def img_sec_def new_cell_loader_def mkPrx_def mkSym_def)
  have g: "unat (sh_info rela_section) < length (getSections (m_elf ldr_sec))"
    by (simp add: ldr_sec_def img_sec_def new_cell_loader_def mkPrx_def rela_section_def
        mkSection_def)
  from abs_symbol_value_counted_twice [OF a b c d e f g]
  show ?thesis
    by (simp add: ldr_sec_def img_sec_def new_cell_loader_def mkPrx_def rela_section_def
        mkSection_def mkSym_def mkRela_def)
qed

section \<open>Properties of the global pointer\<close>

subsection \<open>What the relocation walks leave alone\<close>

lemma applyRelocation_fields:
  "applyRelocation ty a s st = Inr st' \<Longrightarrow>
     m_gpValue st' = m_gpValue st \<and> m_hasSegSym st' = m_hasSegSym st \<and> m_elf st' = m_elf st"
  by (auto simp: applyRelocation_def Let_def patch_dword_def patch_word_def msg_def
      split: if_splits option.splits)

lemma applyRelocation_resolved:
  "m_gpValue st = Some gp \<Longrightarrow> applyRelocation ty a s st \<noteq> Inl UnresolvedGp"
  by (auto simp: applyRelocation_def Let_def)

lemma applySectionRela_fields:
  "applySectionRela section rela st = Inr st' \<Longrightarrow>
     m_gpValue st' = m_gpValue st \<and> m_hasSegSym st' = m_hasSegSym st \<and> m_elf st' = m_elf st"
  by (auto simp: applySectionRela_def Let_def msg_def
      split: if_splits dest: applyRelocation_fields)

lemma applySectionRela_resolved:
  "m_gpValue st = Some gp \<Longrightarrow> applySectionRela section rela st \<noteq> Inl UnresolvedGp"
  by (auto simp: applySectionRela_def Let_def dest: applyRelocation_resolved)

lemma applySegmentRela_fields:
  "applySegmentRela rela st = Inr st' \<Longrightarrow>
     m_gpValue st' = m_gpValue st \<and> m_hasSegSym st' = m_hasSegSym st \<and> m_elf st' = m_elf st"
  by (auto simp: applySegmentRela_def Let_def
      split: if_splits dest: applyRelocation_fields)

lemma relaLoop_fields:
  assumes "\<And>r s s'. f r s = Inr s' \<Longrightarrow>
     m_gpValue s' = m_gpValue s \<and> m_hasSegSym s' = m_hasSegSym s \<and> m_elf s' = m_elf s"
  shows "relaLoop f rs is st = Inr st' \<Longrightarrow>
     m_gpValue st' = m_gpValue st \<and> m_hasSegSym st' = m_hasSegSym st \<and> m_elf st' = m_elf st"
proof (induction "is" arbitrary: st)
  case Nil
  then show ?case by simp
next
  case (Cons i "is")
  then show ?case
    by (auto split: if_splits sum.splits dest!: assms)
qed

lemma relaLoop_resolved:
  assumes "\<And>r s s'. f r s = Inr s' \<Longrightarrow>
     m_gpValue s' = m_gpValue s \<and> m_hasSegSym s' = m_hasSegSym s \<and> m_elf s' = m_elf s"
    and "\<And>r s. m_gpValue s = Some gp \<Longrightarrow> f r s \<noteq> Inl UnresolvedGp"
  shows "m_gpValue st = Some gp \<Longrightarrow> relaLoop f rs is st \<noteq> Inl UnresolvedGp"
proof (induction "is" arbitrary: st)
  case Nil
  then show ?case by simp
next
  case (Cons i "is")
  show ?case
  proof (cases "f (swap_rela (rs ! i)) st")
    case (Inl e)
    with assms(2) [OF Cons.prems] show ?thesis by auto
  next
    case (Inr s')
    with assms(1) [OF Inr] Cons.prems have "m_gpValue s' = Some gp" by simp
    from Cons.IH [OF this] Inr show ?thesis by simp
  qed
qed

lemma sectionWalk_fields:
  "relaLoop (applySectionRela sec) rs is st = Inr st' \<Longrightarrow>
     m_gpValue st' = m_gpValue st \<and> m_hasSegSym st' = m_hasSegSym st \<and> m_elf st' = m_elf st"
  by (rule relaLoop_fields [of "applySectionRela sec"]) (rule applySectionRela_fields)

lemma sectionLoop_fields:
  "sectionLoop secs st = Inr st' \<Longrightarrow>
     m_gpValue st' = m_gpValue st \<and> m_hasSegSym st' = m_hasSegSym st \<and> m_elf st' = m_elf st"
proof (induction secs arbitrary: st)
  case Nil
  then show ?case by simp
next
  case (Cons sec rest)
  let ?walk = "relaLoop (applySectionRela sec) (sec_rela sec)
                 [0 ..< unat (sh_size sec) div sizeof_Elf64_Rela] st"
  show ?case
  proof (cases ?walk)
    case (Inl e)
    with Cons show ?thesis by (auto split: if_splits)
  next
    case (Inr s')
    from sectionWalk_fields [OF Inr]
    have "m_gpValue s' = m_gpValue st \<and> m_hasSegSym s' = m_hasSegSym st \<and> m_elf s' = m_elf st" .
    moreover have "sectionLoop rest s' = Inr st' \<Longrightarrow>
      m_gpValue st' = m_gpValue s' \<and> m_hasSegSym st' = m_hasSegSym s' \<and> m_elf st' = m_elf s'"
      by (rule Cons.IH)
    ultimately show ?thesis
      using Cons.prems Cons.IH [of st] Inr by (auto split: if_splits)
  qed
qed

lemma sectionLoop_resolved:
  "m_gpValue st = Some gp \<Longrightarrow> sectionLoop secs st \<noteq> Inl UnresolvedGp"
proof (induction secs arbitrary: st)
  case Nil
  then show ?case by simp
next
  case (Cons sec rest)
  let ?walk = "relaLoop (applySectionRela sec) (sec_rela sec)
                 [0 ..< unat (sh_size sec) div sizeof_Elf64_Rela] st"
  have w: "?walk \<noteq> Inl UnresolvedGp"
    by (rule relaLoop_resolved [OF applySectionRela_fields applySectionRela_resolved Cons.prems])
  show ?case
  proof (cases ?walk)
    case (Inl e)
    with w Cons show ?thesis by auto
  next
    case (Inr s')
    from relaLoop_fields [of "applySectionRela sec", OF applySectionRela_fields Inr] Cons.prems
    have "m_gpValue s' = Some gp" by simp
    from Cons.IH [OF this] Cons.IH [OF Cons.prems] Inr show ?thesis by auto
  qed
qed

lemma applySegmentRelocations_fields:
  assumes "applySegmentRelocations st = Inr st'"
  shows "m_gpValue st' = m_gpValue st \<and> m_hasSegSym st' = m_hasSegSym st"
proof (cases "find (\<lambda>segment. p_type segment = PT_SCE_PPURELA) (getSegments (m_elf st))")
  case None
  with assms show ?thesis
    by (auto simp: applySegmentRelocations_def msg_def Let_def)
next
  case (Some seg)
  with assms have "relaLoop applySegmentRela (seg_rela seg)
      [0 ..< unat (p_filesz seg) div sizeof_Elf64_Rela]
      (msg (Msg ''Applying segment based relocations..'') st) = Inr st'"
    by (simp add: applySegmentRelocations_def Let_def)
  from relaLoop_fields [of applySegmentRela, OF applySegmentRela_fields this]
  show ?thesis by (simp add: msg_def)
qed

lemma applyRelocations_fields:
  assumes "applyRelocations st = Inr st'"
  shows "m_gpValue st' = m_gpValue st \<and> m_hasSegSym st' = m_hasSegSym st"
proof (cases "m_hasSegSym st")
  case True
  with assms have "sectionLoop (getSections (m_elf st))
      (msg (Msg ''Applying section based relocations..'') st) = Inr st'"
    by (simp add: applyRelocations_def applySectionRelocations_def)
  from sectionLoop_fields [OF this] show ?thesis by (simp add: msg_def)
next
  case False
  with assms show ?thesis
    by (simp add: applyRelocations_def applySegmentRelocations_fields)
qed

subsection \<open>Order of resolution and use\<close>

text \<open>
  Claim C1, as the code has it. For a module with the segment-symbol marker and a section
  named \<open>.toc\<close>, the global pointer is assigned (that section's address plus the
  relocation base) before the relocation walk starts; no entry of the walk then reads an
  unresolved global pointer, and the value is still the same when the stage ends.
\<close>

theorem gp_resolved_before_toc_relocations:
  assumes "list_ex (\<lambda>segment. p_type segment = PT_SCE_SEGSYM) (getSegments (m_elf st))"
    and "getSectionByName (m_elf st) ''.toc'' = Some tocSection"
  shows "m_gpValue (lookupToc (scanSegSym st)) = Some (ucast (sh_addr tocSection + m_relocAddr st)) \<and>
         apply_prx st \<noteq> Inl UnresolvedGp \<and>
         (\<forall>st'. apply_prx st = Inr st' \<longrightarrow>
            m_gpValue st' = Some (ucast (sh_addr tocSection + m_relocAddr st)))"
proof -
  let ?st1 = "msg (Msg ''Applying Relocations...'') (lookupToc (scanSegSym st))"
  let ?gp = "ucast (sh_addr tocSection + m_relocAddr st) :: uint32"
  have gp: "m_gpValue (lookupToc (scanSegSym st)) = Some ?gp"
    using assms by (simp add: lookupToc_def scanSegSym_def)
  have flag: "m_hasSegSym ?st1"
    using assms by (simp add: lookupToc_def scanSegSym_def msg_def)
  have gp1: "m_gpValue ?st1 = Some ?gp"
    using gp by (simp add: msg_def)
  have nofault: "applyRelocations ?st1 \<noteq> Inl UnresolvedGp"
    using flag gp1
    by (simp add: applyRelocations_def applySectionRelocations_def msg_def sectionLoop_resolved)
  have a: "apply_prx st \<noteq> Inl UnresolvedGp"
  proof (cases "applyRelocations ?st1")
    case (Inl e)
    with nofault show ?thesis by (auto simp: apply_prx_def)
  next
    case (Inr s')
    from applyRelocations_fields [OF Inr] flag have "m_hasSegSym s'" by simp
    with Inr show ?thesis by (simp add: apply_prx_def readModuleGp_def)
  qed
  have b: "\<forall>st'. apply_prx st = Inr st' \<longrightarrow> m_gpValue st' = Some ?gp"
  proof (intro allI impI)
    fix st' assume r: "apply_prx st = Inr st'"
    then obtain s' where s': "applyRelocations ?st1 = Inr s'" and rd: "readModuleGp s' = Inr st'"
      by (auto simp: apply_prx_def split: sum.splits)
    from applyRelocations_fields [OF s'] flag gp1
    have "m_hasSegSym s'" "m_gpValue s' = Some ?gp" by simp_all
    with rd show "m_gpValue st' = Some ?gp" by (simp add: readModuleGp_def)
  qed
  from gp a b show ?thesis by blast
qed

theorem gp_resolved_before_toc_relocations_witness:
  "m_gpValue (lookupToc (scanSegSym ldr_toc_sec)) = Some 0x3000 \<and>
   apply_prx ldr_toc_sec \<noteq> Inl UnresolvedGp \<and>
   apply_prx ldr_toc_sec =
     Inr (patch_word 0x1040 0x60
            (ldr_toc_sec\<lparr>m_gpValue := Some 0x3000, m_hasSegSym := True,
               db_calls := [Msg ''Applying Relocations...'',
                            Msg ''Applying section based relocations..'']\<rparr>))"
proof -
  have a: "list_ex (\<lambda>segment. p_type segment = PT_SCE_SEGSYM) (getSegments (m_elf ldr_toc_sec))"
    by (simp add: ldr_toc_sec_def img_toc_sec_def new_cell_loader_def mkPrx_def mkSegment_def
        PT_SCE_SEGSYM_def PT_LOAD_def)
  have b: "getSectionByName (m_elf ldr_toc_sec) ''.toc'' =
      Some (mkSection ''.toc'' SHT_PROGBITS SHF_ALLOC 0x3000 0x100 0 [])"
    by (simp add: getSectionByName_def ldr_toc_sec_def img_toc_sec_def new_cell_loader_def
        mkPrx_def mkSection_def)
  have c: "m_relocAddr ldr_toc_sec = 0"
    by (simp add: ldr_toc_sec_def new_cell_loader_def)
  have d: "apply_prx ldr_toc_sec =
     Inr (patch_word 0x1040 0x60
            (ldr_toc_sec\<lparr>m_gpValue := Some 0x3000, m_hasSegSym := True,
               db_calls := [Msg ''Applying Relocations...'',
                            Msg ''Applying section based relocations..'']\<rparr>))"
    by (simp add: apply_prx_def scanSegSym_def lookupToc_def applyRelocations_def
        applySectionRelocations_def applySectionRela_def applyRelocation_def readModuleGp_def
        getSectionByName_def patch_word_def ldr_toc_sec_def img_toc_sec_def
        toc_rela_section_def image_defs reloc_codes msg_def Let_def upt_conv_Cons)
  from gp_resolved_before_toc_relocations [OF a b] c d show ?thesis
    by (simp add: mkSection_def)
qed

text \<open>
  In the current format the global pointer is assigned only after the relocation walk. The
  concrete module's single \<open>TOC16\<close> entry is applied while it is still unresolved.
\<close>

theorem toc16_reads_unresolved_gp_counterexample:
  "isLoadingPrx (m_elf ldr_toc_seg) \<and> apply_prx ldr_toc_seg = Inl UnresolvedGp"
  by (simp add: apply_prx_def scanSegSym_def lookupToc_def applyRelocations_def
      applySegmentRelocations_def applySegmentRela_def applyRelocation_def readModuleGp_def
      ldr_toc_seg_def img_toc_seg_def image_defs reloc_codes msg_def Let_def upt_conv_Cons)

section \<open>Properties of the table walkers\<close>

lemmas table_offsets =
  off_nfunc_def off_nvar_def off_ntlsvar_def off_libname_def off_nidtable_def
  off_addtable_def off_func_nidtable_def off_func_table_def off_var_nidtable_def
  off_var_table_def off_tls_nidtable_def off_tls_table_def sizeof_scelibent_ppu32_def
  sizeof_scelibstub_ppu32_def

lemmas host_requests = force_name_def set_cmt_def create_dword_def create_struct_def
  auto_make_proc_def import_symbol_def msg_def

lemma fold_calls_prefix:
  assumes "\<And>i s. prefix (db_calls s) (db_calls (f i s))"
  shows "prefix (db_calls st) (db_calls (fold f is st))"
proof (induction "is" arbitrary: st)
  case Nil
  show ?case by simp
next
  case (Cons i "is")
  have "prefix (db_calls st) (db_calls (f i st))" by (rule assms)
  also have "prefix (db_calls (f i st)) (db_calls (fold f is (f i st)))" by (rule Cons.IH)
  finally show ?case by simp
qed

lemma fold_bytes_same:
  assumes "\<And>i s. db_bytes (f i s) = db_bytes s"
  shows "db_bytes (fold f is st) = db_bytes st"
  by (induction "is" arbitrary: st) (simp_all add: assms)

lemma exportSlot_calls_prefix:
  "prefix (db_calls st) (db_calls (exportSlot libNamePtr libName nfunc nidTable addTable i st))"
  by (simp add: exportSlot_def host_requests Let_def split: option.splits)

lemma exportSlot_bytes:
  "db_bytes (exportSlot libNamePtr libName nfunc nidTable addTable i st) = db_bytes st"
  by (simp add: exportSlot_def host_requests Let_def split: option.splits)

lemma importFuncSlot_calls_prefix:
  "prefix (db_calls st) (db_calls (importFuncSlot libName t1 t2 i st))"
  by (simp add: importFuncSlot_def host_requests Let_def split: option.splits)

lemma importVarSlot_calls_prefix:
  "prefix (db_calls st) (db_calls (importVarSlot libName t1 t2 i st))"
  by (simp add: importVarSlot_def host_requests Let_def split: option.splits)

lemma importTlsSlot_calls_prefix:
  "prefix (db_calls st) (db_calls (importTlsSlot libName t1 t2 i st))"
  by (simp add: importTlsSlot_def host_requests Let_def split: option.splits)

lemma importFuncSlot_bytes: "db_bytes (importFuncSlot libName t1 t2 i st) = db_bytes st"
  by (simp add: importFuncSlot_def host_requests Let_def split: option.splits)

lemma importVarSlot_bytes: "db_bytes (importVarSlot libName t1 t2 i st) = db_bytes st"
  by (simp add: importVarSlot_def host_requests Let_def split: option.splits)

lemma importTlsSlot_bytes: "db_bytes (importTlsSlot libName t1 t2 i st) = db_bytes st"
  by (simp add: importTlsSlot_def host_requests Let_def split: option.splits)

lemma calls_prefix_step:
  "prefix (db_calls st) (db_calls (force_name ea n st))"
  "prefix (db_calls st) (db_calls (create_struct ea k tid st))"
  "prefix (db_calls st) (db_calls (msg c st))"
  by (simp_all add: host_requests)

lemma exportEntry_calls_prefix: "prefix (db_calls st) (db_calls (exportEntry ea st))"
proof -
  note tr = prefix_order.order_trans
  have f: "\<And>a b c d e is s. prefix (db_calls st) (db_calls s) \<Longrightarrow>
      prefix (db_calls st) (db_calls (fold (exportSlot a b c d e) is s))"
    by (erule tr) (rule fold_calls_prefix [OF exportSlot_calls_prefix])
  show ?thesis
    by (auto simp: exportEntry_def Let_def intro!: f) (simp_all add: host_requests)
qed

lemma exportEntry_bytes: "db_bytes (exportEntry ea st) = db_bytes st"
  by (simp add: exportEntry_def Let_def fold_bytes_same [OF exportSlot_bytes] host_requests)

lemma importEntry_calls_prefix: "prefix (db_calls st) (db_calls (importEntry ea st))"
proof -
  note tr = prefix_order.order_trans
  have f1: "\<And>a b c is s. prefix (db_calls st) (db_calls s) \<Longrightarrow>
      prefix (db_calls st) (db_calls (fold (importFuncSlot a b c) is s))"
    by (erule tr) (rule fold_calls_prefix [OF importFuncSlot_calls_prefix])
  have f2: "\<And>a b c is s. prefix (db_calls st) (db_calls s) \<Longrightarrow>
      prefix (db_calls st) (db_calls (fold (importVarSlot a b c) is s))"
    by (erule tr) (rule fold_calls_prefix [OF importVarSlot_calls_prefix])
  have f3: "\<And>a b c is s. prefix (db_calls st) (db_calls s) \<Longrightarrow>
      prefix (db_calls st) (db_calls (fold (importTlsSlot a b c) is s))"
    by (erule tr) (rule fold_calls_prefix [OF importTlsSlot_calls_prefix])
  show ?thesis
    by (auto simp: importEntry_def Let_def intro!: f1 f2 f3) (simp_all add: host_requests)
qed

lemma importEntry_bytes: "db_bytes (importEntry ea st) = db_bytes st"
  by (simp add: importEntry_def Let_def fold_bytes_same [OF importFuncSlot_bytes]
      fold_bytes_same [OF importVarSlot_bytes] fold_bytes_same [OF importTlsSlot_bytes]
      host_requests)

lemma exportLoop_calls_prefix:
  assumes "exportLoop ea entEnd st = Some st'"
  shows "prefix (db_calls st) (db_calls st')"
  using assms
proof (rule exportLoop.raw_induct
    [where P = "\<lambda>ea entEnd st st'. prefix (db_calls st) (db_calls st')", rotated])
  fix loop and ea entEnd :: ea_t and st st' :: cell_loader
  assume IH: "\<And>ea entEnd st st'. loop ea entEnd st = Some st' \<Longrightarrow>
      prefix (db_calls st) (db_calls st')"
    and step: "(if ea < entEnd then loop (ea + ucast (get_byte st ea)) entEnd (exportEntry ea st)
                else Some st) = Some st'"
  show "prefix (db_calls st) (db_calls st')"
  proof (cases "ea < entEnd")
    case True
    with step have "loop (ea + ucast (get_byte st ea)) entEnd (exportEntry ea st) = Some st'"
      by simp
    from IH [OF this] exportEntry_calls_prefix [of st ea] show ?thesis
      by (rule prefix_order.order_trans [rotated])
  next
    case False
    with step show ?thesis by simp
  qed
qed

lemma importLoop_calls_prefix:
  assumes "importLoop ea stubEnd st = Some st'"
  shows "prefix (db_calls st) (db_calls st')"
  using assms
proof (rule importLoop.raw_induct
    [where P = "\<lambda>ea stubEnd st st'. prefix (db_calls st) (db_calls st')", rotated])
  fix loop and ea stubEnd :: ea_t and st st' :: cell_loader
  assume IH: "\<And>ea stubEnd st st'. loop ea stubEnd st = Some st' \<Longrightarrow>
      prefix (db_calls st) (db_calls st')"
    and step: "(if ea < stubEnd then loop (ea + ucast (get_byte st ea)) stubEnd (importEntry ea st)
                else Some st) = Some st'"
  show "prefix (db_calls st) (db_calls st')"
  proof (cases "ea < stubEnd")
    case True
    with step have "loop (ea + ucast (get_byte st ea)) stubEnd (importEntry ea st) = Some st'"
      by simp
    from IH [OF this] importEntry_calls_prefix [of st ea] show ?thesis
      by (rule prefix_order.order_trans [rotated])
  next
    case False
    with step show ?thesis by simp
  qed
qed

subsection \<open>A zero size byte\<close>

lemma exportEntry_zero_size:
  "get_byte st ea = 0 \<Longrightarrow> exportEntry ea st = msg (MsgUnknownExport ea) st"
  by (simp add: exportEntry_def Let_def sizeof_scelibent_ppu32_def)

lemma exportLoop_zero_stride_aux:
  assumes "exportLoop ea entEnd st = Some y"
  shows "\<not> (ea < entEnd \<and> get_byte st ea = 0)"
  using assms
proof (rule exportLoop.raw_induct
    [where P = "\<lambda>ea entEnd st y. \<not> (ea < entEnd \<and> get_byte st ea = 0)", rotated])
  fix loop and ea entEnd :: ea_t and st y :: cell_loader
  assume IH: "\<And>ea entEnd st y. loop ea entEnd st = Some y \<Longrightarrow>
      \<not> (ea < entEnd \<and> get_byte st ea = 0)"
    and step: "(if ea < entEnd then loop (ea + ucast (get_byte st ea)) entEnd (exportEntry ea st)
                else Some st) = Some y"
  show "\<not> (ea < entEnd \<and> get_byte st ea = 0)"
  proof
    assume h: "ea < entEnd \<and> get_byte st ea = 0"
    with step have "loop ea entEnd (msg (MsgUnknownExport ea) st) = Some y"
      by (simp add: exportEntry_zero_size)
    from IH [OF this] h show False
      by (simp add: get_byte_def msg_def)
  qed
qed

lemma exportLoop_zero_stride:
  "ea < entEnd \<Longrightarrow> get_byte st ea = 0 \<Longrightarrow> exportLoop ea entEnd st = None"
  using exportLoop_zero_stride_aux [of ea entEnd st] by (cases "exportLoop ea entEnd st") auto

lemma importEntry_zero_size:
  "get_byte st ea = 0 \<Longrightarrow> importEntry ea st = msg (MsgUnknownImport ea) st"
  by (simp add: importEntry_def Let_def sizeof_scelibstub_ppu32_def)

lemma importLoop_zero_stride_aux:
  assumes "importLoop ea stubEnd st = Some y"
  shows "\<not> (ea < stubEnd \<and> get_byte st ea = 0)"
  using assms
proof (rule importLoop.raw_induct
    [where P = "\<lambda>ea stubEnd st y. \<not> (ea < stubEnd \<and> get_byte st ea = 0)", rotated])
  fix loop and ea stubEnd :: ea_t and st y :: cell_loader
  assume IH: "\<And>ea stubEnd st y. loop ea stubEnd st = Some y \<Longrightarrow>
      \<not> (ea < stubEnd \<and> get_byte st ea = 0)"
    and step: "(if ea < stubEnd then loop (ea + ucast (get_byte st ea)) stubEnd (importEntry ea st)
                else Some st) = Some y"
  show "\<not> (ea < stubEnd \<and> get_byte st ea = 0)"
  proof
    assume h: "ea < stubEnd \<and> get_byte st ea = 0"
    with step have "loop ea stubEnd (msg (MsgUnknownImport ea) st) = Some y"
      by (simp add: importEntry_zero_size)
    from IH [OF this] h show False
      by (simp add: get_byte_def msg_def)
  qed
qed

lemma importLoop_zero_stride:
  "ea < stubEnd \<Longrightarrow> get_byte st ea = 0 \<Longrightarrow> importLoop ea stubEnd st = None"
  using importLoop_zero_stride_aux [of ea stubEnd st] by (cases "importLoop ea stubEnd st") auto

subsection \<open>Positive size bytes\<close>

text \<open>
  When no size byte below the end is zero, the walk returns: the cursor grows by at least
  one at each entry (the end is a 32-bit value, so the 64-bit cursor cannot wrap), and the
  loop stops as soon as the cursor is at or past the end, whatever the last size was.
\<close>

lemma stride_advances:
  fixes ea entEnd :: ea_t and b :: uchar
  assumes "ea < entEnd" and "entEnd \<le> 0xFFFFFFFF" and "b \<noteq> 0"
  shows "unat ea < unat (ea + ucast b)"
proof -
  have b: "unat (ucast b :: ea_t) = unat b"
  proof -
    have "unat b < 2 ^ 8" using unsigned_less [of b] by simp
    then have "unat b < 2 ^ 64" by simp
    then show ?thesis by (simp add: unsigned_ucast_eq take_bit_nat_eq_self)
  qed
  have pos: "0 < unat b" using assms(3) by (simp add: unat_gt_0)
  have small: "unat b < 256" using unsigned_less [of b] by simp
  have "unat ea < unat entEnd" using assms(1) by (simp add: word_less_nat_alt)
  moreover have "unat entEnd \<le> 4294967295" using assms(2) by (simp add: word_le_nat_alt)
  ultimately have "unat ea + unat b < 2 ^ 64" using small by simp
  then have "unat (ea + ucast b) = unat ea + unat b"
    by (simp add: unat_word_ariths b)
  with pos show ?thesis by simp
qed

lemma exportLoop_returns_for_positive_sizes:
  assumes "entEnd \<le> 0xFFFFFFFF" and "\<forall>a. a < entEnd \<longrightarrow> get_byte st a \<noteq> 0"
  shows "\<exists>st'. exportLoop ea entEnd st = Some st'"
  using assms(2)
proof (induction "unat entEnd - unat ea" arbitrary: ea st rule: less_induct)
  case less
  show ?case
  proof (cases "ea < entEnd")
    case False
    then show ?thesis by (subst exportLoop.simps) simp
  next
    case True
    let ?ea' = "ea + ucast (get_byte st ea)"
    let ?st' = "exportEntry ea st"
    from True less.prems have nz: "get_byte st ea \<noteq> 0" by simp
    from stride_advances [OF True assms(1) nz] True
    have m: "unat entEnd - unat ?ea' < unat entEnd - unat ea"
      by (simp add: word_less_nat_alt)
    have p: "\<forall>a. a < entEnd \<longrightarrow> get_byte ?st' a \<noteq> 0"
      using less.prems by (simp add: get_byte_def exportEntry_bytes)
    from less.hyps [OF m p] obtain st' where "exportLoop ?ea' entEnd ?st' = Some st'" by blast
    with True show ?thesis by (subst exportLoop.simps) simp
  qed
qed

lemma importLoop_returns_for_positive_sizes:
  assumes "stubEnd \<le> 0xFFFFFFFF" and "\<forall>a. a < stubEnd \<longrightarrow> get_byte st a \<noteq> 0"
  shows "\<exists>st'. importLoop ea stubEnd st = Some st'"
  using assms(2)
proof (induction "unat stubEnd - unat ea" arbitrary: ea st rule: less_induct)
  case less
  show ?case
  proof (cases "ea < stubEnd")
    case False
    then show ?thesis by (subst importLoop.simps) simp
  next
    case True
    let ?ea' = "ea + ucast (get_byte st ea)"
    let ?st' = "importEntry ea st"
    from True less.prems have nz: "get_byte st ea \<noteq> 0" by simp
    from stride_advances [OF True assms(1) nz] True
    have m: "unat stubEnd - unat ?ea' < unat stubEnd - unat ea"
      by (simp add: word_less_nat_alt)
    have p: "\<forall>a. a < stubEnd \<longrightarrow> get_byte ?st' a \<noteq> 0"
      using less.prems by (simp add: get_byte_def importEntry_bytes)
    from less.hyps [OF m p] obtain st' where "importLoop ?ea' stubEnd ?st' = Some st'" by blast
    with True show ?thesis by (subst importLoop.simps) simp
  qed
qed

subsection \<open>Reading the concrete images\<close>

lemmas read_defs = get_byte_def get_word_def get_dword_def be16_def be32_def

lemma reads_after_calls:
  "get_byte (st\<lparr>db_calls := c\<rparr>) = get_byte st"
  "get_word (st\<lparr>db_calls := c\<rparr>) = get_word st"
  "get_dword (st\<lparr>db_calls := c\<rparr>) = get_dword st"
  by (simp_all add: fun_eq_iff read_defs)

lemma ldr_fs_fields:
  "m_database ldr_fs = [(''cellFs'', [(0x718BF5F8, ''cellFsOpen'')])]"
  "db_strlit ldr_fs = (\<lambda>a. if a = 0x2000 then ''cellFs'' else [])"
  "db_calls ldr_fs = []"
  by (simp_all add: ldr_fs_def new_cell_loader_def)

lemma ldr_fs_entry:
  "get_byte ldr_fs 0x1000 = 0x2C"
  "get_word ldr_fs 0x1006 = 2" "get_word ldr_fs 0x1008 = 0" "get_word ldr_fs 0x100A = 0"
  "get_dword ldr_fs 0x1010 = 0x2000"
  "get_dword ldr_fs 0x1014 = 0x3000" "get_dword ldr_fs 0x1018 = 0x3100"
  "get_dword ldr_fs 0x101C = 0" "get_dword ldr_fs 0x1020 = 0"
  "get_dword ldr_fs 0x1024 = 0" "get_dword ldr_fs 0x1028 = 0"
  by (simp_all add: read_defs ldr_fs_def fs_stub_bytes_def new_cell_loader_def)

lemma ldr_fs_reads:
  "get_dword ldr_fs 0x3000 = 0x718BF5F8" "get_dword ldr_fs 0x3004 = 0x11111111"
  "get_dword ldr_fs 0x3100 = 0x4000" "get_dword ldr_fs 0x3104 = 0x4010"
  by (simp_all add: read_defs ldr_fs_def fs_stub_bytes_def new_cell_loader_def)

lemma ldr_tls_fields:
  "m_database ldr_tls = []"
  "db_strlit ldr_tls = (\<lambda>a. if a = 0x2000 then ''cellFs'' else [])"
  "db_calls ldr_tls = []"
  by (simp_all add: ldr_tls_def new_cell_loader_def)

lemma ldr_tls_entry:
  "get_byte ldr_tls 0x1000 = 0x2C"
  "get_word ldr_tls 0x1006 = 0" "get_word ldr_tls 0x1008 = 2" "get_word ldr_tls 0x100A = 1"
  "get_dword ldr_tls 0x1010 = 0x2000"
  "get_dword ldr_tls 0x1014 = 0" "get_dword ldr_tls 0x1018 = 0"
  "get_dword ldr_tls 0x101C = 0" "get_dword ldr_tls 0x1020 = 0"
  "get_dword ldr_tls 0x1024 = 0x3000" "get_dword ldr_tls 0x1028 = 0x3100"
  by (simp_all add: read_defs ldr_tls_def tls_stub_bytes_def new_cell_loader_def)

lemma ldr_tls_reads:
  "get_dword ldr_tls 0x3000 = 0" "get_dword ldr_tls 0x3004 = 0"
  by (simp_all add: read_defs ldr_tls_def tls_stub_bytes_def new_cell_loader_def)

lemma unat_ucast_up: "unat (ucast (a::uint32) :: ea_t) = unat a"
proof -
  have "unat a < 2 ^ 32" using unsigned_less [of a] by simp
  then have "unat a < 2 ^ 64" by simp
  then show ?thesis by (simp add: unsigned_ucast_eq take_bit_nat_eq_self)
qed

lemma ucast_up_less: "((ucast (a::uint32) :: ea_t) < ucast (b::uint32)) = (a < b)"
  by (simp add: word_less_nat_alt unat_ucast_up)

subsection \<open>The bounds of the three import sub-tables\<close>

text \<open>
  Claim C6 holds for the function and variable tables but not for the TLS tables: the
  third inner loop of \<open>loadImports\<close> runs to \<open>nVar\<close>, not to \<open>nTlsVar\<close>. On the concrete
  entry with two variables, one TLS variable and only TLS tables present, two TLS slots
  (at offsets 0 and 4) are processed instead of one.
\<close>

theorem tls_loop_runs_nvar_times:
  "get_word ldr_tls (0x1000 + off_nvar) = 2 \<and>
   get_word ldr_tls (0x1000 + off_ntlsvar) = 1 \<and>
   importEntry 0x1000 ldr_tls = ldr_tls\<lparr>db_calls :=
     [CreateStruct 0x1000 44 ''_scelibstub_ppu32'',
      ForceName 0x1000 ''_cellFs_0001_stub_head'',
      ForceName 0x2000 ''_cellFs_stub_str'',
      ForceName 0x1FFC ''_sce_package_version_cellFs'',
      CreateDword 0x3000, CreateDword 0x3100,
      CreateDword 0x3004, CreateDword 0x3104]\<rparr>"
  by (simp add: importEntry_def table_offsets host_requests Let_def importTlsSlot_def
      qsnprintf_def MAXNAMELEN_def upt_conv_Cons reads_after_calls ldr_tls_fields ldr_tls_entry
      ldr_tls_reads)

subsection \<open>Termination of the walk\<close>

text \<open>
  Claim C7 fails for a size byte of zero: the cursor does not move and the walk never
  returns. In the all-zero database, the export walk and the import walk over the range
  from 0x1000 to 0x1004 have no result.
\<close>

theorem zero_size_walk_never_returns: 
  "get_byte ldr_zero 0x1000 = 0 \<and>
   loadExports 0x1000 0x1004 ldr_zero = None \<and>
   loadImports 0x1000 0x1004 ldr_zero = None"
proof -
  have z: "get_byte (exportMarkers 0x1000 0x1004 ldr_zero) 0x1000 = 0"
     "get_byte (importMarkers 0x1000 0x1004 ldr_zero) 0x1000 = 0"
     "get_byte ldr_zero 0x1000 = 0"
    by (simp_all add: get_byte_def exportMarkers_def importMarkers_def host_requests ldr_zero_def
        new_cell_loader_def)
  have lt: "(0x1000 :: ea_t) < 0x1004"
    by simp
  show ?thesis
    using exportLoop_zero_stride [OF lt z(1)] importLoop_zero_stride [OF lt z(2)] z(3)
    by (simp add: loadExports_def loadImports_def)
qed

subsection \<open>Boundary markers\<close>

text \<open>
  Claim C8, as the code has it. Both walks first name the address four bytes before the
  range start (computed in 32 bits) and the address of the range end with the sentinel
  names, before any entry is looked at: the walk proper starts from the state holding
  these requests, an empty range returns exactly that state, and whatever a walk returns
  still has them as the first requests.
\<close>

theorem boundary_markers_applied_first:
  "db_calls (exportMarkers entTop entEnd st) =
     db_calls st @ [Msg ''Loading exports...'',
                    ForceName (ucast (entTop - 4)) ''__begin_of_section_lib_ent'',
                    ForceName (ucast entEnd) ''__end_of_section_lib_ent''] \<and>
   loadExports entTop entEnd st =
     exportLoop (ucast entTop) (ucast entEnd) (exportMarkers entTop entEnd st) \<and>
   (\<not> entTop < entEnd \<longrightarrow> loadExports entTop entEnd st = Some (exportMarkers entTop entEnd st)) \<and>
   (\<forall>st'. loadExports entTop entEnd st = Some st' \<longrightarrow>
      prefix (db_calls (exportMarkers entTop entEnd st)) (db_calls st')) \<and>
   db_calls (importMarkers stubTop stubEnd st) =
     db_calls st @ [Msg ''Loading imports...'',
                    ForceName (ucast (stubTop - 4)) ''__begin_of_section_lib_stub'',
                    ForceName (ucast stubEnd) ''__end_of_section_lib_stub''] \<and>
   loadImports stubTop stubEnd st =
     importLoop (ucast stubTop) (ucast stubEnd) (importMarkers stubTop stubEnd st) \<and>
   (\<not> stubTop < stubEnd \<longrightarrow> loadImports stubTop stubEnd st = Some (importMarkers stubTop stubEnd st)) \<and>
   (\<forall>st'. loadImports stubTop stubEnd st = Some st' \<longrightarrow>
      prefix (db_calls (importMarkers stubTop stubEnd st)) (db_calls st'))"
proof -
  have e1: "db_calls (exportMarkers entTop entEnd st) =
     db_calls st @ [Msg ''Loading exports...'',
                    ForceName (ucast (entTop - 4)) ''__begin_of_section_lib_ent'',
                    ForceName (ucast entEnd) ''__end_of_section_lib_ent'']"
    by (simp add: exportMarkers_def host_requests)
  have e2: "\<not> entTop < entEnd \<Longrightarrow> loadExports entTop entEnd st = Some (exportMarkers entTop entEnd st)"
    by (subst loadExports_def, subst exportLoop.simps) (simp add: ucast_up_less)
  have e3: "\<And>st'. loadExports entTop entEnd st = Some st' \<Longrightarrow>
      prefix (db_calls (exportMarkers entTop entEnd st)) (db_calls st')"
    unfolding loadExports_def by (rule exportLoop_calls_prefix)
  have i1: "db_calls (importMarkers stubTop stubEnd st) =
     db_calls st @ [Msg ''Loading imports...'',
                    ForceName (ucast (stubTop - 4)) ''__begin_of_section_lib_stub'',
                    ForceName (ucast stubEnd) ''__end_of_section_lib_stub'']"
    by (simp add: importMarkers_def host_requests)
  have i2: "\<not> stubTop < stubEnd \<Longrightarrow> loadImports stubTop stubEnd st = Some (importMarkers stubTop stubEnd st)"
    by (subst loadImports_def, subst importLoop.simps) (simp add: ucast_up_less)
  have i3: "\<And>st'. loadImports stubTop stubEnd st = Some st' \<Longrightarrow>
      prefix (db_calls (importMarkers stubTop stubEnd st)) (db_calls st')"
    unfolding loadImports_def by (rule importLoop_calls_prefix)
  from e1 e2 e3 i1 i2 i3 show ?thesis
    by (simp add: loadExports_def loadImports_def)
qed

theorem boundary_markers_applied_first_witness:
  "loadExports 0x1000 0x1000 ldr_zero =
     Some (ldr_zero\<lparr>db_calls := [Msg ''Loading exports...'',
                    ForceName 0xFFC ''__begin_of_section_lib_ent'',
                    ForceName 0x1000 ''__end_of_section_lib_ent'']\<rparr>) \<and>
   loadImports 0 0 ldr_zero =
     Some (ldr_zero\<lparr>db_calls := [Msg ''Loading imports...'',
                    ForceName 0xFFFFFFFC ''__begin_of_section_lib_stub'',
                    ForceName 0 ''__end_of_section_lib_stub'']\<rparr>)"
proof -
  have a: "\<not> (0x1000 :: uint32) < 0x1000" "\<not> (0 :: uint32) < 0" by simp_all
  have b: "db_calls ldr_zero = []" by (simp add: ldr_zero_def new_cell_loader_def)
  have c: "exportMarkers 0x1000 0x1000 ldr_zero =
     ldr_zero\<lparr>db_calls := [Msg ''Loading exports...'',
                    ForceName 0xFFC ''__begin_of_section_lib_ent'',
                    ForceName 0x1000 ''__end_of_section_lib_ent'']\<rparr>"
    by (simp add: exportMarkers_def host_requests b)
  have d: "importMarkers 0 0 ldr_zero =
     ldr_zero\<lparr>db_calls := [Msg ''Loading imports...'',
                    ForceName 0xFFFFFFFC ''__begin_of_section_lib_stub'',
                    ForceName 0 ''__end_of_section_lib_stub'']\<rparr>"
    by (simp add: importMarkers_def host_requests b)
  note t = boundary_markers_applied_first [of "0x1000" "0x1000" ldr_zero 0 0]
  from t a(1) have "loadExports 0x1000 0x1000 ldr_zero = Some (exportMarkers 0x1000 0x1000 ldr_zero)"
    by blast
  moreover from t a(2) have "loadImports 0 0 ldr_zero = Some (importMarkers 0 0 ldr_zero)"
    by blast
  ultimately show ?thesis by (simp only: c d)
qed

text \<open>
  The begin marker is not put on the byte immediately before the range start: for a range
  starting at 0x1000 it goes to 0xFFC, and 0xFFF gets no name.
\<close>

theorem begin_marker_four_bytes_before_counterexample:
  "loadExports 0x1000 0x1000 ldr_fs =
     Some (ldr_fs\<lparr>db_calls := [Msg ''Loading exports...'',
                    ForceName 0xFFC ''__begin_of_section_lib_ent'',
                    ForceName 0x1000 ''__end_of_section_lib_ent'']\<rparr>) \<and>
   ForceName 0xFFF ''__begin_of_section_lib_ent''
     \<notin> set (db_calls (the (loadExports 0x1000 0x1000 ldr_fs)))"
proof -
  have b: "db_calls ldr_fs = []" by (simp add: ldr_fs_def new_cell_loader_def)
  have "loadExports 0x1000 0x1000 ldr_fs =
     Some (ldr_fs\<lparr>db_calls := [Msg ''Loading exports...'',
                    ForceName 0xFFC ''__begin_of_section_lib_ent'',
                    ForceName 0x1000 ''__end_of_section_lib_ent'']\<rparr>)"
    by (subst loadExports_def, subst exportLoop.simps)
      (simp add: exportMarkers_def host_requests b)
  then show ?thesis by simp
qed

subsection \<open>Names given to an imported function\<close>

text \<open>
  Claim C9, as the code has it. For a function slot of an import entry whose NID resolves
  to a name N, the NID slot gets N as comment, the stub-address slot is named
  \<open>N.stub_entry\<close>, and the code address stored in the stub slot is named \<open>.N\<close>, with a
  leading dot, and registered as an import of the library under that name; both names
  are cut to the host's name buffer and are exact when N is at most \<open>MAXNAMELEN - 12\<close>
  characters long. A slot whose NID does not resolve gets no name or comment. In both
  cases the NID slot and the stub slot are made 4-byte items.
\<close>

theorem import_function_slot_names:
  assumes "nidOffset = funcNidTable + of_nat i * 4"
    and "funcOffset = funcTable + of_nat i * 4"
    and "func = ucast (get_dword st funcOffset)"
  shows "(getNameFromDatabase (m_database st) libName (get_dword st nidOffset) = Some N \<longrightarrow>
            db_calls (importFuncSlot libName funcNidTable funcTable i st) =
              db_calls st @
              [SetCmt nidOffset N,
               ForceName funcOffset (qsnprintf MAXNAMELEN (N @ ''.stub_entry'')),
               ForceName func (qsnprintf MAXNAMELEN (''.'' @ N)),
               ImportSymbol libName func (qsnprintf MAXNAMELEN (''.'' @ N)),
               CreateDword nidOffset, CreateDword funcOffset] \<and>
            (length N + 12 \<le> MAXNAMELEN \<longrightarrow>
               qsnprintf MAXNAMELEN (N @ ''.stub_entry'') = N @ ''.stub_entry'' \<and>
               qsnprintf MAXNAMELEN (''.'' @ N) = ''.'' @ N)) \<and>
         (getNameFromDatabase (m_database st) libName (get_dword st nidOffset) = None \<longrightarrow>
            db_calls (importFuncSlot libName funcNidTable funcTable i st) =
              db_calls st @ [CreateDword nidOffset, CreateDword funcOffset])"
  using assms
  by (auto simp: importFuncSlot_def host_requests Let_def qsnprintf_def)

theorem import_function_slot_names_witness:
  "db_calls (importFuncSlot ''cellFs'' 0x3000 0x3100 0 ldr_fs) =
     [SetCmt 0x3000 ''cellFsOpen'',
      ForceName 0x3100 ''cellFsOpen.stub_entry'',
      ForceName 0x4000 ''.cellFsOpen'',
      ImportSymbol ''cellFs'' 0x4000 ''.cellFsOpen'',
      CreateDword 0x3000, CreateDword 0x3100] \<and>
   db_calls (importFuncSlot ''cellFs'' 0x3000 0x3100 1 ldr_fs) =
     [CreateDword 0x3004, CreateDword 0x3104]"
proof -
  have db: "m_database ldr_fs = [(''cellFs'', [(0x718BF5F8, ''cellFsOpen'')])]"
    "db_calls ldr_fs = []"
    by (simp_all add: ldr_fs_def new_cell_loader_def)
  have r0: "getNameFromDatabase (m_database ldr_fs) ''cellFs'' (get_dword ldr_fs 0x3000) =
      Some ''cellFsOpen''"
    by (simp add: db ldr_fs_reads)
  have r1: "getNameFromDatabase (m_database ldr_fs) ''cellFs'' (get_dword ldr_fs 0x3004) = None"
    by (simp add: db ldr_fs_reads)
  have n: "length ''cellFsOpen'' + 12 \<le> MAXNAMELEN" by (simp add: MAXNAMELEN_def)
  have s0: "(0x3000::ea_t) = 0x3000 + of_nat 0 * 4" "(0x3100::ea_t) = 0x3100 + of_nat 0 * 4"
    "(0x4000::ea_t) = ucast (get_dword ldr_fs 0x3100)"
    by (simp_all add: ldr_fs_reads)
  have s1: "(0x3004::ea_t) = 0x3000 + of_nat 1 * 4" "(0x3104::ea_t) = 0x3100 + of_nat 1 * 4"
    "(0x4010::ea_t) = ucast (get_dword ldr_fs 0x3104)"
    by (simp_all add: ldr_fs_reads)
  from import_function_slot_names [OF s0, of "''cellFs''" "''cellFsOpen''"] r0 n
    import_function_slot_names [OF s1, of "''cellFs''" "''cellFsOpen''"] r1 db(2)
  show ?thesis by simp
qed

text \<open>
  The walk over the concrete import table (one entry, two functions, the first NID
  resolving to \<open>cellFsOpen\<close>): the code address 0x4000 is named \<open>.cellFsOpen\<close>, never
  \<open>cellFsOpen\<close>.
\<close>

theorem code_address_named_with_dot_counterexample:
  "loadImports 0x1000 0x102C ldr_fs =
     Some (ldr_fs\<lparr>db_calls :=
       [Msg ''Loading imports...'',
        ForceName 0xFFC ''__begin_of_section_lib_stub'',
        ForceName 0x102C ''__end_of_section_lib_stub'',
        CreateStruct 0x1000 44 ''_scelibstub_ppu32'',
        ForceName 0x1000 ''_cellFs_0001_stub_head'',
        ForceName 0x2000 ''_cellFs_stub_str'',
        ForceName 0x1FFC ''_sce_package_version_cellFs'',
        SetCmt 0x3000 ''cellFsOpen'',
        ForceName 0x3100 ''cellFsOpen.stub_entry'',
        ForceName 0x4000 ''.cellFsOpen'',
        ImportSymbol ''cellFs'' 0x4000 ''.cellFsOpen'',
        CreateDword 0x3000, CreateDword 0x3100,
        CreateDword 0x3004, CreateDword 0x3104]\<rparr>) \<and>
   ForceName 0x4000 ''cellFsOpen'' \<notin> set (db_calls (the (loadImports 0x1000 0x102C ldr_fs)))"
proof -
  let ?calls = "[Msg ''Loading imports...'',
        ForceName 0xFFC ''__begin_of_section_lib_stub'',
        ForceName 0x102C ''__end_of_section_lib_stub'',
        CreateStruct 0x1000 44 ''_scelibstub_ppu32'',
        ForceName 0x1000 ''_cellFs_0001_stub_head'',
        ForceName 0x2000 ''_cellFs_stub_str'',
        ForceName 0x1FFC ''_sce_package_version_cellFs'',
        SetCmt 0x3000 ''cellFsOpen'',
        ForceName 0x3100 ''cellFsOpen.stub_entry'',
        ForceName 0x4000 ''.cellFsOpen'',
        ImportSymbol ''cellFs'' 0x4000 ''.cellFsOpen'',
        CreateDword 0x3000, CreateDword 0x3100,
        CreateDword 0x3004, CreateDword 0x3104]"
  let ?st1 = "importMarkers 0x1000 0x102C ldr_fs"
  have sz: "get_byte ?st1 0x1000 = 0x2C"
    by (simp add: importMarkers_def host_requests reads_after_calls ldr_fs_entry)
  have e: "importEntry 0x1000 ?st1 = ldr_fs\<lparr>db_calls := ?calls\<rparr>"
    by (simp add: importEntry_def importMarkers_def table_offsets host_requests Let_def
        importFuncSlot_def qsnprintf_def MAXNAMELEN_def upt_conv_Cons reads_after_calls
        ldr_fs_fields ldr_fs_entry ldr_fs_reads)
  have stop: "\<And>s. importLoop 0x102C 0x102C s = Some s"
    by (subst importLoop.simps) simp
  have "importLoop 0x1000 0x102C ?st1 = importLoop 0x102C 0x102C (importEntry 0x1000 ?st1)"
    by (subst importLoop.simps) (simp add: sz)
  then have "loadImports 0x1000 0x102C ldr_fs = Some (ldr_fs\<lparr>db_calls := ?calls\<rparr>)"
    by (simp add: loadImports_def stop e)
  then show ?thesis by simp
qed

section \<open>The global pointer of a legacy module without a .toc section\<close>

subsection \<open>What the table walkers leave alone\<close>

lemma fold_gp_same:
  assumes "\<And>i s. m_gpValue (f i s) = m_gpValue s"
  shows "m_gpValue (fold f is st) = m_gpValue st"
  by (induction "is" arbitrary: st) (simp_all add: assms)

lemma exportSlot_gp:
  "m_gpValue (exportSlot libNamePtr libName nfunc nidTable addTable i st) = m_gpValue st"
  by (simp add: exportSlot_def host_requests Let_def split: option.splits)

lemma importFuncSlot_gp: "m_gpValue (importFuncSlot libName t1 t2 i st) = m_gpValue st"
  by (simp add: importFuncSlot_def host_requests Let_def split: option.splits)

lemma importVarSlot_gp: "m_gpValue (importVarSlot libName t1 t2 i st) = m_gpValue st"
  by (simp add: importVarSlot_def host_requests Let_def split: option.splits)

lemma importTlsSlot_gp: "m_gpValue (importTlsSlot libName t1 t2 i st) = m_gpValue st"
  by (simp add: importTlsSlot_def host_requests Let_def split: option.splits)

lemma exportEntry_gp: "m_gpValue (exportEntry ea st) = m_gpValue st"
  by (simp add: exportEntry_def Let_def fold_gp_same [OF exportSlot_gp] host_requests)

lemma importEntry_gp: "m_gpValue (importEntry ea st) = m_gpValue st"
  by (simp add: importEntry_def Let_def fold_gp_same [OF importFuncSlot_gp]
      fold_gp_same [OF importVarSlot_gp] fold_gp_same [OF importTlsSlot_gp] host_requests)

lemma exportLoop_gp:
  assumes "exportLoop ea entEnd st = Some st'"
  shows "m_gpValue st' = m_gpValue st"
  using assms
proof (rule exportLoop.raw_induct
    [where P = "\<lambda>ea entEnd st st'. m_gpValue st' = m_gpValue st", rotated])
  fix loop and ea entEnd :: ea_t and st st' :: cell_loader
  assume IH: "\<And>ea entEnd st st'. loop ea entEnd st = Some st' \<Longrightarrow> m_gpValue st' = m_gpValue st"
    and step: "(if ea < entEnd then loop (ea + ucast (get_byte st ea)) entEnd (exportEntry ea st)
                else Some st) = Some st'"
  show "m_gpValue st' = m_gpValue st"
  proof (cases "ea < entEnd")
    case True
    with step have "loop (ea + ucast (get_byte st ea)) entEnd (exportEntry ea st) = Some st'"
      by simp
    from IH [OF this] show ?thesis by (simp add: exportEntry_gp)
  next
    case False
    with step show ?thesis by simp
  qed
qed

lemma importLoop_gp:
  assumes "importLoop ea stubEnd st = Some st'"
  shows "m_gpValue st' = m_gpValue st"
  using assms
proof (rule importLoop.raw_induct
    [where P = "\<lambda>ea stubEnd st st'. m_gpValue st' = m_gpValue st", rotated])
  fix loop and ea stubEnd :: ea_t and st st' :: cell_loader
  assume IH: "\<And>ea stubEnd st st'. loop ea stubEnd st = Some st' \<Longrightarrow> m_gpValue st' = m_gpValue st"
    and step: "(if ea < stubEnd then loop (ea + ucast (get_byte st ea)) stubEnd (importEntry ea st)
                else Some st) = Some st'"
  show "m_gpValue st' = m_gpValue st"
  proof (cases "ea < stubEnd")
    case True
    with step have "loop (ea + ucast (get_byte st ea)) stubEnd (importEntry ea st) = Some st'"
      by simp
    from IH [OF this] show ?thesis by (simp add: importEntry_gp)
  next
    case False
    with step show ?thesis by simp
  qed
qed

lemma applyModuleInfo_gp:
  assumes "applyModuleInfo st = Some (Inr st')"
  shows "m_gpValue st' = m_gpValue st"
proof -
  from assms obtain firstSegment rest where segs: "getSegments (m_elf st) = firstSegment # rest"
    by (cases "getSegments (m_elf st)") (auto simp: applyModuleInfo_def)
  let ?ea = "(p_vaddr firstSegment + m_relocAddr st) + (p_paddr firstSegment - p_offset firstSegment)"
  let ?st1 = "create_struct ?ea sizeof_scemoduleinfo_ppu32 ''_scemoduleinfo'' st"
  from assms segs obtain st2 st3 where
    e: "loadExports (get_dword ?st1 (?ea + off_ent_top)) (get_dword ?st1 (?ea + off_ent_end)) ?st1
          = Some st2"
    and i: "loadImports (get_dword st2 (?ea + off_stub_top)) (get_dword st2 (?ea + off_stub_end)) st2
          = Some st3"
    and r: "st' = add_entry 0 ?ea ''module_info'' False st3"
    by (auto simp: applyModuleInfo_def Let_def split: option.splits)
  from e have "m_gpValue st2 = m_gpValue st"
    by (auto simp: loadExports_def exportMarkers_def host_requests dest!: exportLoop_gp)
  moreover from i have "m_gpValue st3 = m_gpValue st2"
    by (auto simp: loadImports_def importMarkers_def host_requests dest!: importLoop_gp)
  ultimately show ?thesis using r by (simp add: add_entry_def)
qed

subsection \<open>The concrete module without a .toc section\<close>

lemma apply_prx_ldr_notoc:
  "apply_prx ldr_notoc =
     Inr (ldr_notoc\<lparr>m_hasSegSym := True,
            db_calls := [Msg ''Applying Relocations...'',
                         Msg ''Applying section based relocations..'']\<rparr>)"
  by (simp add: apply_prx_def scanSegSym_def lookupToc_def applyRelocations_def
      applySectionRelocations_def readModuleGp_def getSectionByName_def
      ldr_notoc_def img_notoc_def image_defs msg_def)

lemma loadExports_empty_range:
  "\<not> entTop < entEnd \<Longrightarrow> loadExports entTop entEnd st = Some (exportMarkers entTop entEnd st)"
  by (subst loadExports_def, subst exportLoop.simps) (simp add: ucast_up_less)

lemma loadImports_empty_range:
  "\<not> stubTop < stubEnd \<Longrightarrow> loadImports stubTop stubEnd st = Some (importMarkers stubTop stubEnd st)"
  by (subst loadImports_def, subst importLoop.simps) (simp add: ucast_up_less)

lemma reads_after_flag:
  "get_dword (st\<lparr>m_hasSegSym := b\<rparr>) = get_dword st"
  by (simp add: fun_eq_iff read_defs)

lemma ldr_notoc_module_info:
  "get_dword ldr_notoc 0x1020 = 0x2000"
  "get_dword ldr_notoc 0x1024 = 0" "get_dword ldr_notoc 0x1028 = 0"
  "get_dword ldr_notoc 0x102C = 0" "get_dword ldr_notoc 0x1030 = 0"
  by (simp_all add: read_defs ldr_notoc_def new_cell_loader_def)

lemma ldr_notoc_fields:
  "getSegments (m_elf ldr_notoc) =
     [mkSegment PT_LOAD 0x1000 0x100 [], mkSegment PT_SCE_SEGSYM 0 0 []]"
  "m_relocAddr ldr_notoc = 0" "m_gpValue ldr_notoc = None" "db_calls ldr_notoc = []"
  by (simp_all add: ldr_notoc_def img_notoc_def new_cell_loader_def mkPrx_def)

lemma apply_module_ldr_notoc:
  "apply_module ldr_notoc =
     Some (Inr (ldr_notoc\<lparr>m_hasSegSym := True,
       db_calls :=
         [Msg ''Applying Relocations...'',
          Msg ''Applying section based relocations..'',
          Msg ''Applying Module Info...'',
          CreateStruct 0x1000 52 ''_scemoduleinfo'',
          Msg ''Loading exports...'',
          ForceName 0xFFFFFFFC ''__begin_of_section_lib_ent'',
          ForceName 0 ''__end_of_section_lib_ent'',
          Msg ''Loading imports...'',
          ForceName 0xFFFFFFFC ''__begin_of_section_lib_stub'',
          ForceName 0 ''__end_of_section_lib_stub'',
          AddEntry 0 0x1000 ''module_info'' False]\<rparr>))"
  by (simp add: apply_module_def apply_prx_ldr_notoc applyModuleInfo_def Let_def
      ldr_notoc_fields mkSegment_def host_requests add_entry_def reads_after_calls reads_after_flag
      off_ent_top_def off_ent_end_def off_stub_top_def off_stub_end_def
      sizeof_scemoduleinfo_ppu32_def ldr_notoc_module_info
      loadExports_empty_range loadImports_empty_range exportMarkers_def importMarkers_def)

subsection \<open>No fall-through to the module-info structure\<close>

text \<open>
  Claim C2, as the code has it. For a module with the segment-symbol marker and no
  section named \<open>.toc\<close>, nothing assigns the global pointer: not the relocation stage
  (the read of the module-info \<open>gp_value\<close> field is made only when the marker is absent),
  and not \<open>applyModuleInfo\<close> either, which locates the structure and walks the tables
  without reading that field.
\<close>

theorem no_fall_through_to_module_info:
  assumes "list_ex (\<lambda>segment. p_type segment = PT_SCE_SEGSYM) (getSegments (m_elf st))"
    and "getSectionByName (m_elf st) ''.toc'' = None"
  shows "(\<forall>st'. apply_prx st = Inr st' \<longrightarrow> m_gpValue st' = m_gpValue st) \<and>
         (\<forall>st'. apply_module st = Some (Inr st') \<longrightarrow> m_gpValue st' = m_gpValue st)"
proof -
  let ?st1 = "msg (Msg ''Applying Relocations...'') (lookupToc (scanSegSym st))"
  have gp1: "m_gpValue ?st1 = m_gpValue st" and flag: "m_hasSegSym ?st1"
    using assms(1,2) by (simp_all add: lookupToc_def scanSegSym_def msg_def)
  have a: "m_gpValue st' = m_gpValue st" if "apply_prx st = Inr st'" for st'
  proof -
    from that obtain s' where s': "applyRelocations ?st1 = Inr s'" and rd: "readModuleGp s' = Inr st'"
      by (auto simp: apply_prx_def split: sum.splits)
    from applyRelocations_fields [OF s'] flag gp1
    have "m_hasSegSym s'" "m_gpValue s' = m_gpValue st" by simp_all
    with rd show ?thesis by (simp add: readModuleGp_def)
  qed
  have b: "m_gpValue st' = m_gpValue st" if "apply_module st = Some (Inr st')" for st'
  proof -
    from that obtain s where s: "apply_prx st = Inr s"
      and m: "applyModuleInfo (msg (Msg ''Applying Module Info...'') s) = Some (Inr st')"
      by (auto simp: apply_module_def split: sum.splits)
    from applyModuleInfo_gp [OF m] a [OF s] show ?thesis by (simp add: msg_def)
  qed
  from a b show ?thesis by blast
qed

theorem no_fall_through_to_module_info_witness:
  "m_gpValue ldr_notoc = None \<and>
   apply_prx ldr_notoc =
     Inr (ldr_notoc\<lparr>m_hasSegSym := True,
            db_calls := [Msg ''Applying Relocations...'',
                         Msg ''Applying section based relocations..'']\<rparr>) \<and>
   m_gpValue (ldr_notoc\<lparr>m_hasSegSym := True,
            db_calls := [Msg ''Applying Relocations...'',
                         Msg ''Applying section based relocations..'']\<rparr>) = None \<and>
   apply_module ldr_notoc =
     Some (Inr (ldr_notoc\<lparr>m_hasSegSym := True,
       db_calls :=
         [Msg ''Applying Relocations...'',
          Msg ''Applying section based relocations..'',
          Msg ''Applying Module Info...'',
          CreateStruct 0x1000 52 ''_scemoduleinfo'',
          Msg ''Loading exports...'',
          ForceName 0xFFFFFFFC ''__begin_of_section_lib_ent'',
          ForceName 0 ''__end_of_section_lib_ent'',
          Msg ''Loading imports...'',
          ForceName 0xFFFFFFFC ''__begin_of_section_lib_stub'',
          ForceName 0 ''__end_of_section_lib_stub'',
          AddEntry 0 0x1000 ''module_info'' False]\<rparr>)) \<and>
   m_gpValue (ldr_notoc\<lparr>m_hasSegSym := True,
       db_calls :=
         [Msg ''Applying Relocations...'',
          Msg ''Applying section based relocations..'',
          Msg ''Applying Module Info...'',
          CreateStruct 0x1000 52 ''_scemoduleinfo'',
          Msg ''Loading exports...'',
          ForceName 0xFFFFFFFC ''__begin_of_section_lib_ent'',
          ForceName 0 ''__end_of_section_lib_ent'',
          Msg ''Loading imports...'',
          ForceName 0xFFFFFFFC ''__begin_of_section_lib_stub'',
          ForceName 0 ''__end_of_section_lib_stub'',
          AddEntry 0 0x1000 ''module_info'' False]\<rparr>) = None"
proof -
  have a: "list_ex (\<lambda>segment. p_type segment = PT_SCE_SEGSYM) (getSegments (m_elf ldr_notoc))"
    by (simp add: ldr_notoc_fields mkSegment_def PT_SCE_SEGSYM_def PT_LOAD_def)
  have b: "getSectionByName (m_elf ldr_notoc) ''.toc'' = None"
    by (simp add: getSectionByName_def ldr_notoc_def img_notoc_def new_cell_loader_def
        mkPrx_def mkSection_def)
  note t = no_fall_through_to_module_info [OF a b]
  from t apply_prx_ldr_notoc have
    "m_gpValue (ldr_notoc\<lparr>m_hasSegSym := True,
            db_calls := [Msg ''Applying Relocations...'',
                         Msg ''Applying section based relocations..'']\<rparr>) = m_gpValue ldr_notoc"
    by blast
  moreover from t apply_module_ldr_notoc have
    "m_gpValue (ldr_notoc\<lparr>m_hasSegSym := True,
       db_calls :=
         [Msg ''Applying Relocations...'',
          Msg ''Applying section based relocations..'',
          Msg ''Applying Module Info...'',
          CreateStruct 0x1000 52 ''_scemoduleinfo'',
          Msg ''Loading exports...'',
          ForceName 0xFFFFFFFC ''__begin_of_section_lib_ent'',
          ForceName 0 ''__end_of_section_lib_ent'',
          Msg ''Loading imports...'',
          ForceName 0xFFFFFFFC ''__begin_of_section_lib_stub'',
          ForceName 0 ''__end_of_section_lib_stub'',
          AddEntry 0 0x1000 ''module_info'' False]\<rparr>) = m_gpValue ldr_notoc"
    by blast
  ultimately show ?thesis
    using ldr_notoc_fields(3) apply_prx_ldr_notoc apply_module_ldr_notoc by simp
qed

text \<open>
  In the concrete module the module-info field holds 0x2000, and both the relocation stage
  and the whole module branch end with the global pointer still unassigned.
\<close>

theorem module_info_gp_not_used_counterexample:
  "get_dword ldr_notoc 0x1020 = 0x2000 \<and>
   map_sum id m_gpValue (apply_prx ldr_notoc) = Inr None \<and>
   map_option (map_sum id m_gpValue) (apply_module ldr_notoc) = Some (Inr None)"
  by (simp add: ldr_notoc_module_info apply_prx_ldr_notoc apply_module_ldr_notoc
      ldr_notoc_fields)

end
